theory Spec2Isabelle
  imports Complex_Main "HOL-Library.Multiset" "HOL-Library.Log_Nat"
begin

section \<open>Python text as the sources use it\<close>

text \<open>
  A Python \<open>str\<close> is a sequence of code points. The model keeps the code points below 256
  (Latin-1, which holds every character of the Portuguese messages and column names of the
  sources), one \<open>char\<close> per code point; \<open>length\<close> then counts what \<open>len\<close> counts.
  The character classes below are the ones of the Unicode database on that range.
\<close>

definition py_isspace :: "char \<Rightarrow> bool" where
  "py_isspace c \<longleftrightarrow>
     c \<in> set [CHR 0x09, CHR 0x0A, CHR 0x0B, CHR 0x0C, CHR 0x0D, CHR 0x1C, CHR 0x1D,
               CHR 0x1E, CHR 0x1F, CHR 0x20, CHR 0x85, CHR 0xA0]"

text \<open>\<open>str.isdecimal\<close> on one character: category Nd, the ten ASCII digits.\<close>

definition py_isdecimal :: "char \<Rightarrow> bool" where
  "py_isdecimal c \<longleftrightarrow> c \<in> set ''0123456789''"

text \<open>
  \<open>str.isdigit\<close> on one character: the decimal digits and the superscript digits
  U+00B2, U+00B3 and U+00B9.
\<close>

definition py_isdigit :: "char \<Rightarrow> bool" where
  "py_isdigit c \<longleftrightarrow> py_isdecimal c \<or> c \<in> set [CHR 0xB2, CHR 0xB3, CHR 0xB9]"

text \<open>\<open>s.strip()\<close>: leading and trailing whitespace removed.\<close>

definition py_strip :: "string \<Rightarrow> string" where
  "py_strip s = rev (dropWhile py_isspace (rev (dropWhile py_isspace s)))"

text \<open>
  \<open>s.zfill(w)\<close>: zeros on the left up to width \<open>w\<close>, after a leading sign if there is one.
\<close>

definition py_zfill :: "nat \<Rightarrow> string \<Rightarrow> string" where
  "py_zfill w s =
     (if w \<le> length s then s
      else (case s of
              [] \<Rightarrow> replicate w (CHR ''0'')
            | c # r \<Rightarrow>
                if c = CHR ''+'' \<or> c = CHR ''-''
                then c # replicate (w - length s) (CHR ''0'') @ r
                else replicate (w - length s) (CHR ''0'') @ s))"

text \<open>
  \<open>c.lower()\<close> on one character: the ASCII capitals and the Latin-1 capitals U+00C0 to
  U+00DE (without the multiplication sign U+00D7) go to the letter 32 code points up.
\<close>

definition MAIUSCULAS :: string where
  "MAIUSCULAS = ''ABCDEFGHIJKLMNOPQRSTUVWXYZ'' @
     [CHR 0xC0, CHR 0xC1, CHR 0xC2, CHR 0xC3, CHR 0xC4, CHR 0xC5, CHR 0xC6, CHR 0xC7,
      CHR 0xC8, CHR 0xC9, CHR 0xCA, CHR 0xCB, CHR 0xCC, CHR 0xCD, CHR 0xCE, CHR 0xCF,
      CHR 0xD0, CHR 0xD1, CHR 0xD2, CHR 0xD3, CHR 0xD4, CHR 0xD5, CHR 0xD6,
      CHR 0xD8, CHR 0xD9, CHR 0xDA, CHR 0xDB, CHR 0xDC, CHR 0xDD, CHR 0xDE]"

definition MINUSCULAS :: string where
  "MINUSCULAS = ''abcdefghijklmnopqrstuvwxyz'' @
     [CHR 0xE0, CHR 0xE1, CHR 0xE2, CHR 0xE3, CHR 0xE4, CHR 0xE5, CHR 0xE6, CHR 0xE7,
      CHR 0xE8, CHR 0xE9, CHR 0xEA, CHR 0xEB, CHR 0xEC, CHR 0xED, CHR 0xEE, CHR 0xEF,
      CHR 0xF0, CHR 0xF1, CHR 0xF2, CHR 0xF3, CHR 0xF4, CHR 0xF5, CHR 0xF6,
      CHR 0xF8, CHR 0xF9, CHR 0xFA, CHR 0xFB, CHR 0xFC, CHR 0xFD, CHR 0xFE]"

definition py_lower_char :: "char \<Rightarrow> char" where
  "py_lower_char c = (case map_of (zip MAIUSCULAS MINUSCULAS) c of Some d \<Rightarrow> d | None \<Rightarrow> c)"

definition py_lower :: "string \<Rightarrow> string" where
  "py_lower s = map py_lower_char s"

text \<open>\<open>s.replace(a, b)\<close> for one-character \<open>a\<close> and \<open>b\<close>.\<close>

definition py_replace :: "char \<Rightarrow> char \<Rightarrow> string \<Rightarrow> string" where
  "py_replace a b s = map (\<lambda>c. if c = a then b else c) s"

text \<open>
  Splitting at every character of a class, empty pieces kept: \<open>s.split(c)\<close> and
  \<open>re.split\<close> with a one-character class.
\<close>

fun split_onde :: "(char \<Rightarrow> bool) \<Rightarrow> string \<Rightarrow> string list" where
  "split_onde P [] = [[]]"
| "split_onde P (c # cs) =
     (if P c then [] # split_onde P cs
      else (case split_onde P cs of [] \<Rightarrow> [[c]] | r # rs \<Rightarrow> (c # r) # rs))"

text \<open>\<open>s.split()\<close>: the maximal runs without whitespace.\<close>

definition py_split :: "string \<Rightarrow> string list" where
  "py_split s = filter (\<lambda>p. p \<noteq> []) (split_onde py_isspace s)"

text \<open>\<open>" ".join(ps)\<close>.\<close>

fun junta_espaco :: "string list \<Rightarrow> string" where
  "junta_espaco [] = []"
| "junta_espaco [p] = p"
| "junta_espaco (p # q # ps) = p @ CHR 0x20 # junta_espaco (q # ps)"

text \<open>\<open>s.isdigit()\<close>: at least one character, all of them digits.\<close>

definition py_str_isdigit :: "string \<Rightarrow> bool" where
  "py_str_isdigit s \<longleftrightarrow> s \<noteq> [] \<and> list_all py_isdigit s"

section \<open>Python integers and their text\<close>

text \<open>Python's \<open>int\<close> is unbounded: HOL's \<open>int\<close>. \<open>str(i)\<close> is the decimal text.\<close>

fun decimal_nat :: "nat \<Rightarrow> string" where
  "decimal_nat n =
     (if n < 10 then [''0123456789'' ! n]
      else decimal_nat (n div 10) @ [''0123456789'' ! (n mod 10)])"

declare decimal_nat.simps [simp del]

definition py_str_int :: "int \<Rightarrow> string" where
  "py_str_int i = (if i < 0 then CHR ''-'' # decimal_nat (nat (- i)) else decimal_nat (nat i))"

text \<open>
  The format \<open>{i:0wd}\<close>: the decimal text, with zeros between the sign and the digits
  up to width \<open>w\<close>; \<open>fmt_02d\<close> is \<open>{i:02d}\<close>.
\<close>

definition fmt_0d :: "nat \<Rightarrow> int \<Rightarrow> string" where
  "fmt_0d w i =
     (let d = decimal_nat (nat \<bar>i\<bar>)
      in if i < 0 then CHR ''-'' # replicate (w - 1 - length d) (CHR ''0'') @ d
         else replicate (w - length d) (CHR ''0'') @ d)"

definition fmt_02d :: "int \<Rightarrow> string" where
  "fmt_02d i = fmt_0d 2 i"

text \<open>
  Reading a number: \<open>int\<close> and \<open>float\<close> drop the whitespace around the text, but not the
  separators U+001C to U+001F, which \<open>strip\<close> does drop.
\<close>

definition py_isspace_conv :: "char \<Rightarrow> bool" where
  "py_isspace_conv c \<longleftrightarrow>
     c \<in> set [CHR 0x09, CHR 0x0A, CHR 0x0B, CHR 0x0C, CHR 0x0D, CHR 0x20, CHR 0x85, CHR 0xA0]"

definition strip_conv :: "string \<Rightarrow> string" where
  "strip_conv s = rev (dropWhile py_isspace_conv (rev (dropWhile py_isspace_conv s)))"

definition valor_digito :: "char \<Rightarrow> nat" where
  "valor_digito c = of_char c - 48"

definition nat_de_digitos :: "string \<Rightarrow> nat" where
  "nat_de_digitos ds = foldl (\<lambda>a c. 10 * a + valor_digito c) 0 ds"

text \<open>
  The grammar's \<open>digitpart\<close>: decimal digits, with single underscores allowed between
  them. The result is the digits without the underscores.
\<close>

definition digitpart :: "string \<Rightarrow> string option" where
  "digitpart s =
     (let gs = split_onde (\<lambda>c. c = CHR ''_'') s
      in if list_all (\<lambda>g. g \<noteq> [] \<and> list_all py_isdecimal g) gs then Some (concat gs) else None)"

text \<open>An optional sign in front: whether it is a minus, and the rest.\<close>

definition tira_sinal :: "string \<Rightarrow> bool \<times> string" where
  "tira_sinal s =
     (case s of
        [] \<Rightarrow> (False, [])
      | c # r \<Rightarrow> if c = CHR ''-'' then (True, r) else if c = CHR ''+'' then (False, r)
                 else (False, s))"

section \<open>Exceptions\<close>

text \<open>
  An exception is a value: its class, as far as a handler of the sources tells classes
  apart, and the text \<open>str(e)\<close>. \<open>Erro\<close> is an exception of any other class, such as the
  ones the browser engine and the captcha service raise.
\<close>

datatype excecao = TypeError string | ValueError string | OverflowError string | Erro string

fun str_exc :: "excecao \<Rightarrow> string" where
  "str_exc (TypeError m) = m"
| "str_exc (ValueError m) = m"
| "str_exc (OverflowError m) = m"
| "str_exc (Erro m) = m"

text \<open>
  \<open>int(s)\<close> for a text, base 10. (The interpreter's configurable limit on the number of
  digits is not part of the model.)
\<close>

definition int_de_str :: "string \<Rightarrow> excecao + int" where
  "int_de_str s =
     (let (neg, r) = tira_sinal (strip_conv s)
      in case digitpart r of
           None \<Rightarrow> Inl (ValueError ''invalid literal for int() with base 10'')
         | Some ds \<Rightarrow> Inr (if neg then - int (nat_de_digitos ds) else int (nat_de_digitos ds)))"

section \<open>Python floats\<close>

text \<open>
  A \<open>float\<close> is an IEEE 754 binary64 number. A finite one is given by its exact value, a
  rational; the two infinities, the negative zero and the not-a-number are values of their
  own. \<open>binary64\<close> rounds a rational that is not negative to the nearest float, ties to
  the even significand, as the interpreter does when it reads a literal or a text and when
  it converts an \<open>int\<close>: 53 significant bits, the least exponent of a normal number
  \<open>-1022\<close>, the spacing \<open>2 ^ -1074\<close> below it, and an infinity from \<open>2 ^ 1024\<close> on.
\<close>

datatype pyfloat = Finito rat | MenosZero | MaisInf | MenosInf | NaN

definition arredonda_par :: "rat \<Rightarrow> int" where
  "arredonda_par x =
     (let f = \<lfloor>x\<rfloor>; r = x - of_int f
      in if r < 1 / 2 then f else if 1 / 2 < r then f + 1 else if even f then f else f + 1)"

definition pot2 :: "int \<Rightarrow> rat" where
  "pot2 e = (if 0 \<le> e then 2 ^ nat e else 1 / 2 ^ nat (- e))"

text \<open>The exponent of a positive rational: the greatest \<open>e\<close> with \<open>2 ^ e \<le> a\<close>.\<close>

definition expoente2 :: "rat \<Rightarrow> int" where
  "expoente2 a = (if 1 \<le> a then bitlen \<lfloor>a\<rfloor> - 1 else - bitlen (\<lceil>1 / a\<rceil> - 1))"

definition binary64_pos :: "rat \<Rightarrow> rat" where
  "binary64_pos a =
     (let e = expoente2 a;
          q = (if e < - 1022 then - 1074 else e - 52)
      in of_int (arredonda_par (a / pot2 q)) * pot2 q)"

definition binary64 :: "rat \<Rightarrow> pyfloat" where
  "binary64 a =
     (if a = 0 then Finito 0
      else if binary64_pos a < pot2 1024 then Finito (binary64_pos a) else MaisInf)"

fun nega :: "pyfloat \<Rightarrow> pyfloat" where
  "nega (Finito q) = (if q = 0 then MenosZero else Finito (- q))"
| "nega MenosZero = Finito 0"
| "nega MaisInf = MenosInf"
| "nega MenosInf = MaisInf"
| "nega NaN = NaN"

text \<open>\<open>float(i)\<close> for an \<open>int\<close>: an integer too large for a float raises.\<close>

definition float_de_int :: "int \<Rightarrow> excecao + pyfloat" where
  "float_de_int i =
     (case binary64 (of_int \<bar>i\<bar>) of
        MaisInf \<Rightarrow> Inl (OverflowError ''int too large to convert to float'')
      | f \<Rightarrow> Inr (if i < 0 then nega f else f))"

text \<open>
  \<open>float(s)\<close> for a text: \<open>[sign] (number [exponent] | inf | infinity | nan)\<close>, where
  \<open>number\<close> is \<open>[digitpart] "." digitpart\<close> or \<open>digitpart ["."]\<close> and \<open>exponent\<close> is
  \<open>("e" | "E") [sign] digitpart\<close>. \<open>numero_decimal\<close> is the exact value of
  \<open>number [exponent]\<close>.
\<close>

definition eh_e :: "char \<Rightarrow> bool" where
  "eh_e c \<longleftrightarrow> c = CHR ''e'' \<or> c = CHR ''E''"

definition mantissa_decimal :: "string \<Rightarrow> (nat \<times> nat) option" where
  "mantissa_decimal m =
     (case split_onde (\<lambda>c. c = CHR ''.'') m of
        [i] \<Rightarrow> map_option (\<lambda>ds. (nat_de_digitos ds, 0)) (digitpart i)
      | [i, f] \<Rightarrow>
          (if f = [] then map_option (\<lambda>ds. (nat_de_digitos ds, 0)) (digitpart i)
           else (case digitpart f of
                   None \<Rightarrow> None
                 | Some fs \<Rightarrow>
                     if i = [] then Some (nat_de_digitos fs, length fs)
                     else map_option (\<lambda>ds. (nat_de_digitos (ds @ fs), length fs)) (digitpart i)))
      | _ \<Rightarrow> None)"

definition expoente_decimal :: "string \<Rightarrow> int option" where
  "expoente_decimal x =
     (let (neg, r) = tira_sinal x
      in map_option (\<lambda>ds. if neg then - int (nat_de_digitos ds) else int (nat_de_digitos ds))
           (digitpart r))"

definition pot10 :: "int \<Rightarrow> rat" where
  "pot10 e = (if 0 \<le> e then 10 ^ nat e else 1 / 10 ^ nat (- e))"

definition numero_decimal :: "string \<Rightarrow> rat option" where
  "numero_decimal r =
     (let m = takeWhile (\<lambda>c. \<not> eh_e c) r; x = dropWhile (\<lambda>c. \<not> eh_e c) r
      in case mantissa_decimal m of
           None \<Rightarrow> None
         | Some (n, k) \<Rightarrow>
             (case x of
                [] \<Rightarrow> Some (of_nat n * pot10 (- int k))
              | _ # xs \<Rightarrow>
                  (case expoente_decimal xs of
                     None \<Rightarrow> None
                   | Some e \<Rightarrow> Some (of_nat n * pot10 (e - int k)))))"

definition float_de_str :: "string \<Rightarrow> excecao + pyfloat" where
  "float_de_str s =
     (let (neg, r) = tira_sinal (strip_conv s);
          l = py_lower r;
          sinal = (\<lambda>f. if neg then nega f else f)
      in if l = ''inf'' \<or> l = ''infinity'' then Inr (sinal MaisInf)
         else if l = ''nan'' then Inr NaN
         else (case numero_decimal r of
                 None \<Rightarrow> Inl (ValueError ''could not convert string to float'')
               | Some q \<Rightarrow> Inr (sinal (binary64 q))))"

text \<open>
  The format \<open>{x:.2f}\<close> of a float: the exact value rounded to two decimals, ties to the
  even digit, written with a point; the sign is kept when the rounded value is zero.
\<close>

definition fmt_2f_float :: "pyfloat \<Rightarrow> string" where
  "fmt_2f_float x =
     (case x of
        Finito q \<Rightarrow>
          (let n = nat (arredonda_par (\<bar>q\<bar> * 100))
           in (if q < 0 then ''-'' else []) @ decimal_nat (n div 100) @ ''.'' @
              fmt_0d 2 (int (n mod 100)))
      | MenosZero \<Rightarrow> ''-0.00''
      | MaisInf \<Rightarrow> ''inf''
      | MenosInf \<Rightarrow> ''-inf''
      | NaN \<Rightarrow> ''nan'')"

section \<open>Python values of cells and work items\<close>

text \<open>
  What a worksheet cell read with \<open>values_only=True\<close> holds, and what the fields of a
  work item hold: \<open>None\<close>, a \<open>bool\<close>, an \<open>int\<close>, a \<open>float\<close>, a \<open>str\<close> or a (naive)
  \<open>datetime\<close>. A \<open>bool\<close> is an instance of \<open>int\<close>.
\<close>

record datetime =
  dt_year :: int
  dt_month :: int
  dt_day :: int
  dt_hour :: int
  dt_minute :: int
  dt_second :: int
  dt_microsecond :: int

datatype pyval = PNone | PBool bool | PInt int | PFloat pyfloat | PStr string | PDatetime datetime

text \<open>\<open>str(d)\<close> for a datetime: \<open>YYYY-MM-DD HH:MM:SS\<close>, and the microseconds if not zero.\<close>

definition py_str_datetime :: "datetime \<Rightarrow> string" where
  "py_str_datetime d =
     fmt_0d 4 (dt_year d) @ ''-'' @ fmt_0d 2 (dt_month d) @ ''-'' @ fmt_0d 2 (dt_day d) @ '' '' @
     fmt_0d 2 (dt_hour d) @ '':'' @ fmt_0d 2 (dt_minute d) @ '':'' @ fmt_0d 2 (dt_second d) @
     (if dt_microsecond d = 0 then [] else ''.'' @ fmt_0d 6 (dt_microsecond d))"

text \<open>\<open>int(x)\<close> of a float: towards zero; an infinity and a not-a-number raise.\<close>

definition trunca :: "rat \<Rightarrow> int" where
  "trunca q = (if 0 \<le> q then \<lfloor>q\<rfloor> else \<lceil>q\<rceil>)"

fun py_int :: "pyval \<Rightarrow> excecao + int" where
  "py_int PNone = Inl (TypeError ''int() argument must be a string, a bytes-like object or a real number'')"
| "py_int (PBool b) = Inr (if b then 1 else 0)"
| "py_int (PInt i) = Inr i"
| "py_int (PFloat (Finito q)) = Inr (trunca q)"
| "py_int (PFloat MenosZero) = Inr 0"
| "py_int (PFloat MaisInf) = Inl (OverflowError ''cannot convert float infinity to integer'')"
| "py_int (PFloat MenosInf) = Inl (OverflowError ''cannot convert float infinity to integer'')"
| "py_int (PFloat NaN) = Inl (ValueError ''cannot convert float NaN to integer'')"
| "py_int (PStr s) = int_de_str s"
| "py_int (PDatetime d) = Inl (TypeError ''int() argument must be a string, a bytes-like object or a real number'')"

text \<open>
  The format \<open>{v:.2f}\<close> of a value: an \<open>int\<close> (and a \<open>bool\<close>) is converted to a float
  first, a text has no such format, and a datetime takes the format as a \<open>strftime\<close>
  pattern without directives.
\<close>

fun fmt_2f :: "pyval \<Rightarrow> excecao + string" where
  "fmt_2f PNone = Inl (TypeError ''unsupported format string passed to NoneType.__format__'')"
| "fmt_2f (PBool b) = Inr (if b then ''1.00'' else ''0.00'')"
| "fmt_2f (PInt i) = (case float_de_int i of Inl e \<Rightarrow> Inl e | Inr f \<Rightarrow> Inr (fmt_2f_float f))"
| "fmt_2f (PFloat f) = Inr (fmt_2f_float f)"
| "fmt_2f (PStr s) =
     Inl (ValueError (''Unknown format code '' @ [CHR 0x27] @ ''f'' @ [CHR 0x27] @
                      '' for object of type '' @ [CHR 0x27] @ ''str'' @ [CHR 0x27]))"
| "fmt_2f (PDatetime d) = Inr ''.2f''"

section \<open>Dates, as \<open>datetime\<close> computes them\<close>

text \<open>
  The proleptic Gregorian calendar of the standard library: the ordinal of a date (day 1
  is 0001-01-01) and the date of an ordinal, with the library's own arithmetic, and the
  sum of a date and a number of days, which raises when it leaves the years 1 to 9999.
\<close>

definition is_leap :: "int \<Rightarrow> bool" where
  "is_leap y \<longleftrightarrow> y mod 4 = 0 \<and> (y mod 100 \<noteq> 0 \<or> y mod 400 = 0)"

definition DAYS_IN_MONTH :: "int list" where
  "DAYS_IN_MONTH = [- 1, 31, 28, 31, 30, 31, 30, 31, 31, 30, 31, 30, 31]"

definition DAYS_BEFORE_MONTH :: "int list" where
  "DAYS_BEFORE_MONTH = [- 1, 0, 31, 59, 90, 120, 151, 181, 212, 243, 273, 304, 334]"

definition days_before_year :: "int \<Rightarrow> int" where
  "days_before_year year =
     (let y = year - 1 in y * 365 + y div 4 - y div 100 + y div 400)"

definition days_before_month :: "int \<Rightarrow> int \<Rightarrow> int" where
  "days_before_month year month =
     DAYS_BEFORE_MONTH ! nat month + (if 2 < month \<and> is_leap year then 1 else 0)"

definition ymd2ord :: "int \<Rightarrow> int \<Rightarrow> int \<Rightarrow> int" where
  "ymd2ord year month day = days_before_year year + days_before_month year month + day"

definition ord2ymd :: "int \<Rightarrow> int \<times> int \<times> int" where
  "ord2ymd n0 =
     (let n = n0 - 1;
          n400 = n div 146097; n = n mod 146097;
          year = n400 * 400 + 1;
          n100 = n div 36524; n = n mod 36524;
          n4 = n div 1461; n = n mod 1461;
          n1 = n div 365; n = n mod 365;
          year = year + n100 * 100 + n4 * 4 + n1
      in if n1 = 4 \<or> n100 = 4 then (year - 1, 12, 31)
         else (let leapyear = (n1 = 3 \<and> (n4 \<noteq> 24 \<or> n100 = 3));
                   month = (n + 50) div 32;
                   preceding = DAYS_BEFORE_MONTH ! nat month +
                               (if 2 < month \<and> leapyear then 1 else 0)
               in if n < preceding
                  then (let month = month - 1;
                            preceding = preceding -
                              (DAYS_IN_MONTH ! nat month +
                               (if month = 2 \<and> leapyear then 1 else 0))
                        in (year, month, n - preceding + 1))
                  else (year, month, n - preceding + 1)))"

definition MAXORDINAL :: int where
  "MAXORDINAL = 3652059"

definition soma_dias :: "int \<times> int \<times> int \<Rightarrow> int \<Rightarrow> (int \<times> int \<times> int) option" where
  "soma_dias d n =
     (case d of (y, m, dd) \<Rightarrow>
        (let t = ymd2ord y m dd + n
         in if 0 < t \<and> t \<le> MAXORDINAL then Some (ord2ymd t) else None))"

section \<open>excel\_filiais.py: the reference period of the title area\<close>

definition MAX_LINHAS_BUSCA_PERIODO :: nat where
  "MAX_LINHAS_BUSCA_PERIODO = 12"

definition MAX_COLUNAS_BUSCA_PERIODO :: nat where
  "MAX_COLUNAS_BUSCA_PERIODO = 30"

definition MESES_ABREV :: "(string \<times> int) list" where
  "MESES_ABREV =
     [(''jan'', 1), (''fev'', 2), (''mar'', 3), (''abr'', 4), (''mai'', 5), (''jun'', 6),
      (''jul'', 7), (''ago'', 8), (''set'', 9), (''out'', 10), (''nov'', 11), (''dez'', 12)]"

text \<open>
  The match of \<^verbatim>\<open>^(jan|fev|mar|abr|mai|jun|jul|ago|set|out|nov|dez)[\s\-/](\d{2})$\<close>
  at the start of a text: the two groups. The dollar also matches before a line feed that
  ends the text.
\<close>

definition casa_grupos :: "string \<Rightarrow> (string \<times> string) option" where
  "casa_grupos s =
     (if 6 \<le> length s \<and> take 3 s \<in> set (map fst MESES_ABREV) \<and>
         (py_isspace (s ! 3) \<or> s ! 3 = CHR ''-'' \<or> s ! 3 = CHR ''/'') \<and>
         py_isdecimal (s ! 4) \<and> py_isdecimal (s ! 5) \<and>
         (drop 6 s = [] \<or> drop 6 s = [CHR 0x0A])
      then Some (take 3 s, take 2 (drop 4 s)) else None)"

text \<open>The Excel serial number of a date: days after 1899-12-30.\<close>

definition periodo_valido :: "int \<Rightarrow> int \<Rightarrow> (int \<times> int) option" where
  "periodo_valido mes ano =
     (if 1 \<le> mes \<and> mes \<le> 12 \<and> 1995 \<le> ano \<and> ano \<le> 2030 then Some (mes, ano) else None)"

definition periodo_de_serial :: "int \<Rightarrow> (int \<times> int) option" where
  "periodo_de_serial n =
     (case soma_dias (1899, 12, 30) n of
        None \<Rightarrow> None
      | Some (y, m, d) \<Rightarrow> periodo_valido m y)"

text \<open>The first format of a text cell: \<open>jan-26\<close>, \<open>jan/26\<close>, \<open>jan 26\<close>.\<close>

definition periodo_mes_abreviado :: "string \<Rightarrow> (int \<times> int) option" where
  "periodo_mes_abreviado s =
     (case casa_grupos (py_lower s) of
        None \<Rightarrow> None
      | Some (mes_str, ano_2) \<Rightarrow>
          (let a = int (nat_de_digitos ano_2);
               ano = (if a < 50 then 2000 + a else 1900 + a)
           in case map_of MESES_ABREV mes_str of
                None \<Rightarrow> None
              | Some mes \<Rightarrow> if mes \<noteq> 0 \<and> 1995 \<le> ano \<and> ano \<le> 2030 then Some (mes, ano) else None))"

text \<open>
  The second format: \<open>1/1/2026\<close> or \<open>1/2026\<close>. \<open>int(p)\<close> raises on a piece that
  \<open>isdigit\<close> accepts but that holds a superscript digit; the handler then gives up.
\<close>

fun ints_das_partes :: "string list \<Rightarrow> excecao + int list" where
  "ints_das_partes [] = Inr []"
| "ints_das_partes (p # ps) =
     (if py_str_isdigit p
      then (case int_de_str p of
              Inl e \<Rightarrow> Inl e
            | Inr i \<Rightarrow> (case ints_das_partes ps of Inl e \<Rightarrow> Inl e | Inr is \<Rightarrow> Inr (i # is)))
      else ints_das_partes ps)"

definition periodo_numerico :: "string \<Rightarrow> (int \<times> int) option" where
  "periodo_numerico s =
     (let part = filter (\<lambda>p. p \<noteq> [])
                   (map py_strip (split_onde (\<lambda>c. c \<in> set ''/-.'') s))
      in if 2 \<le> length part
         then (case ints_das_partes part of
                 Inl e \<Rightarrow> None
               | Inr nums \<Rightarrow>
                   (case nums of
                      [a, b] \<Rightarrow> periodo_valido a b
                    | a # b # c # r \<Rightarrow> periodo_valido b c
                    | _ \<Rightarrow> None))
         else None)"

text \<open>
  \<open>_parsear_celula_periodo\<close> returns \<open>(None, None)\<close> or a pair of integers: here
  \<open>None\<close> or \<open>Some (month, year)\<close>. The tests follow the source's order: a datetime, a
  number (a \<open>bool\<close> is one, and is never between 2000 and 100000), a text.
\<close>

fun parsear_celula_periodo :: "pyval \<Rightarrow> (int \<times> int) option" where
  "parsear_celula_periodo (PDatetime d) = periodo_valido (dt_month d) (dt_year d)"
| "parsear_celula_periodo (PBool b) = None"
| "parsear_celula_periodo (PInt i) =
     (if 2000 < i \<and> i < 100000 then periodo_de_serial i else None)"
| "parsear_celula_periodo (PFloat f) =
     (case f of
        Finito q \<Rightarrow> if 2000 < q \<and> q < 100000 then periodo_de_serial (trunca q) else None
      | _ \<Rightarrow> None)"
| "parsear_celula_periodo (PStr v) =
     (let s = py_strip v
      in if s = [] then None
         else (case periodo_mes_abreviado s of
                 Some p \<Rightarrow> Some p
               | None \<Rightarrow> periodo_numerico s))"
| "parsear_celula_periodo PNone = None"

text \<open>
  A worksheet is its rows, top down; a row is its cells, or cannot be read (the engine
  raises, and the scan of the title area goes on with the next row). \<open>iter_rows\<close> for one
  row number with \<open>max_col=30\<close> gives the first 30 cells of that row, and nothing for a
  row past the end.
\<close>

datatype linha = Celulas "pyval list" | Ilegivel

type_synonym planilha = "linha list"

fun primeiro_periodo :: "pyval list \<Rightarrow> (int \<times> int) option" where
  "primeiro_periodo [] = None"
| "primeiro_periodo (valor # celulas) =
     (if valor = PNone then primeiro_periodo celulas
      else (case parsear_celula_periodo valor of
              Some p \<Rightarrow> Some p
            | None \<Rightarrow> primeiro_periodo celulas))"

fun varre_linhas :: "linha list \<Rightarrow> (int \<times> int) option" where
  "varre_linhas [] = None"
| "varre_linhas (Ilegivel # ls) = varre_linhas ls"
| "varre_linhas (Celulas cs # ls) =
     (case primeiro_periodo (take MAX_COLUNAS_BUSCA_PERIODO cs) of
        Some p \<Rightarrow> Some p
      | None \<Rightarrow> varre_linhas ls)"

definition MSG_PERIODO_NAO_ENCONTRADO :: string where
  "MSG_PERIODO_NAO_ENCONTRADO =
     ''Per'' @ [CHR 0xED] @ ''odo de refer'' @ [CHR 0xEA] @ ''ncia n'' @ [CHR 0xE3] @
     ''o encontrado na '' @ [CHR 0xE1] @ ''rea do t'' @ [CHR 0xED] @
     ''tulo. Inclua a data (ex.: 1/1/2026) ou m'' @ [CHR 0xEA] @
     ''s/ano (ex.: jan-26) ao lado do t'' @ [CHR 0xED] @ ''tulo '' @ [CHR 0x27] @ ''APURA'' @
     [CHR 0xC7] @ [CHR 0xC3] @ ''O DE ICMS CEARA'' @ [CHR 0x27] @ ''.''"

definition extrair_periodo_da_area_titulo :: "planilha \<Rightarrow> excecao + (int \<times> int)" where
  "extrair_periodo_da_area_titulo planilha =
     (case varre_linhas (take MAX_LINHAS_BUSCA_PERIODO planilha) of
        Some p \<Rightarrow> Inr p
      | None \<Rightarrow> Inl (ValueError MSG_PERIODO_NAO_ENCONTRADO))"

section \<open>excel\_filiais.py: the identifier in digits\<close>

definition DIGITOS_IE_CE :: nat where
  "DIGITOS_IE_CE = 9"

text \<open>
  \<^verbatim>\<open>
  def ie_apenas_digitos(ie: str) -> str:
      if not ie:
          return ""
      digitos = "".join(c for c in str(ie).strip() if c.isdigit())
      return digitos.zfill(DIGITOS_IE_CE) if len(digitos) <= DIGITOS_IE_CE else digitos[:DIGITOS_IE_CE]
  \<close>
\<close>

definition ie_apenas_digitos :: "string \<Rightarrow> string" where
  "ie_apenas_digitos ie =
     (if ie = [] then []
      else (let digitos = filter py_isdigit (py_strip ie)
            in if length digitos \<le> DIGITOS_IE_CE then py_zfill DIGITOS_IE_CE digitos
               else take DIGITOS_IE_CE digitos))"

section \<open>excel\_filiais.py: the work items of a sheet\<close>

text \<open>
  \<open>unicodedata.normalize("NFD", s)\<close> followed by the removal of the combining marks
  (category Mn), one character at a time: an accented Latin-1 letter becomes its base
  letter, every other character of the range stays.
\<close>

definition ACENTUADAS :: string where
  "ACENTUADAS =
     [CHR 0xC0, CHR 0xC1, CHR 0xC2, CHR 0xC3, CHR 0xC4, CHR 0xC5, CHR 0xC7, CHR 0xC8,
      CHR 0xC9, CHR 0xCA, CHR 0xCB, CHR 0xCC, CHR 0xCD, CHR 0xCE, CHR 0xCF, CHR 0xD1,
      CHR 0xD2, CHR 0xD3, CHR 0xD4, CHR 0xD5, CHR 0xD6, CHR 0xD9, CHR 0xDA, CHR 0xDB,
      CHR 0xDC, CHR 0xDD,
      CHR 0xE0, CHR 0xE1, CHR 0xE2, CHR 0xE3, CHR 0xE4, CHR 0xE5, CHR 0xE7, CHR 0xE8,
      CHR 0xE9, CHR 0xEA, CHR 0xEB, CHR 0xEC, CHR 0xED, CHR 0xEE, CHR 0xEF, CHR 0xF1,
      CHR 0xF2, CHR 0xF3, CHR 0xF4, CHR 0xF5, CHR 0xF6, CHR 0xF9, CHR 0xFA, CHR 0xFB,
      CHR 0xFC, CHR 0xFD, CHR 0xFF]"

definition LETRAS_BASE :: string where
  "LETRAS_BASE = ''AAAAAACEEEEIIIINOOOOOUUUUY'' @ ''aaaaaaceeeeiiiinooooouuuuyy''"

definition sem_acento :: "char \<Rightarrow> char" where
  "sem_acento c = (case map_of (zip ACENTUADAS LETRAS_BASE) c of Some d \<Rightarrow> d | None \<Rightarrow> c)"

text \<open>
  \<^verbatim>\<open>
  def _normalizar_cabecalho(texto: str | None) -> str:
      if texto is None:
          return ""
      s = str(texto).strip().lower()
      s = unicodedata.normalize("NFD", s)
      s = "".join(c for c in s if unicodedata.category(c) != "Mn")
      s = "".join(c for c in s if c != ".")
      return " ".join(s.split())
  \<close>
  The argument is a text or \<open>None\<close>: the keys of the column mapping and the names of
  the module are texts.
\<close>

definition normalizar_cabecalho :: "string option \<Rightarrow> string" where
  "normalizar_cabecalho texto =
     (case texto of
        None \<Rightarrow> []
      | Some t \<Rightarrow>
          (let s = py_lower (py_strip t);
               s = map sem_acento s;
               s = filter (\<lambda>c. c \<noteq> CHR ''.'') s
           in junta_espaco (py_split s)))"

definition SINONIMOS_IE :: "string list" where
  "SINONIMOS_IE =
     [''INSC.ESTADUAL'', ''INSC. ESTADUAL'', ''i.e.'', ''ie'', ''i..e.'',
      ''inscri'' @ [CHR 0xE7] @ [CHR 0xE3] @ ''o estadual'', ''inscricao estadual'']"

definition celula_bate_nome_ie :: "string option \<Rightarrow> bool" where
  "celula_bate_nome_ie valor =
     (let n = normalizar_cabecalho valor
      in if n = [] then False
         else if list_ex (\<lambda>nome. normalizar_cabecalho (Some nome) = n) SINONIMOS_IE then True
         else n = ''inscestadual'' \<or> n = ''insc estadual'')"

text \<open>
  The column mapping \<open>nome_para_indice\<close> is a \<open>dict\<close> from column name to position; the
  functions below walk its keys in insertion order, so it is a list of pairs here.
\<close>

type_synonym mapeamento = "(string \<times> nat) list"

definition obter_chave_ie :: "mapeamento \<Rightarrow> string option" where
  "obter_chave_ie nome_para_indice =
     find (\<lambda>chave. celula_bate_nome_ie (Some chave)) (map fst nome_para_indice)"

definition obter_chave_total :: "mapeamento \<Rightarrow> string option" where
  "obter_chave_total nome_para_indice =
     find (\<lambda>chave. normalizar_cabecalho (Some chave) = normalizar_cabecalho (Some ''TOTAL''))
       (map fst nome_para_indice)"

definition normalizar_ie_zeros_esquerda :: "string \<Rightarrow> string" where
  "normalizar_ie_zeros_esquerda ie =
     (if ie = [] \<or> DIGITOS_IE_CE \<le> length ie then ie
      else if \<not> py_str_isdigit ie then ie
      else py_zfill DIGITOS_IE_CE ie)"

text \<open>
  \<open>_valor_ie_para_string\<close>: \<open>None\<close> stays, a number goes through \<open>int\<close> (which raises on
  an infinity or a not-a-number), anything else through \<open>str\<close>.
\<close>

definition ie_de_texto :: "string \<Rightarrow> string option" where
  "ie_de_texto t =
     (let s = py_strip t in if s \<noteq> [] then Some (normalizar_ie_zeros_esquerda s) else None)"

fun valor_ie_para_string :: "pyval \<Rightarrow> excecao + string option" where
  "valor_ie_para_string PNone = Inr None"
| "valor_ie_para_string (PStr t) = Inr (ie_de_texto t)"
| "valor_ie_para_string (PDatetime d) = Inr (ie_de_texto (py_str_datetime d))"
| "valor_ie_para_string v =
     (case py_int v of Inl e \<Rightarrow> Inl e | Inr i \<Rightarrow> Inr (ie_de_texto (py_str_int i)))"

text \<open>
  A row of the sheet is a \<open>dict\<close> from column name to cell value; \<open>row.get(k)\<close> is
  \<open>None\<close> for a missing key.
\<close>

type_synonym linha_dados = "string \<Rightarrow> pyval option"

definition row_get :: "linha_dados \<Rightarrow> string \<Rightarrow> pyval" where
  "row_get row k = (case row k of None \<Rightarrow> PNone | Some v \<Rightarrow> v)"

text \<open>
  A work item is the \<open>dict\<close> with the keys \<open>ie\<close>, \<open>ie_digitos\<close>, \<open>valor_normal\<close>,
  \<open>mes_ref\<close> and \<open>ano_ref\<close> (the fields carry the prefix \<open>item_\<close>). The orchestrator reads the first two through
  \<open>str(item.get(key, ""))\<close>: the record holds that text. The other three it reads with
  \<open>item.get(key)\<close>: the record holds the value, \<open>None\<close> for a missing key.
\<close>

record item =
  item_ie :: string
  item_ie_digitos :: string
  item_valor_normal :: pyval
  item_mes_ref :: pyval
  item_ano_ref :: pyval

text \<open>
  The amount of a row, from the cell of the TOTAL column:
  \<^verbatim>\<open>
  valor_normal: float | None = None
  if total_key:
      v = row.get(total_key)
      if isinstance(v, (int, float)):
          valor_normal = float(v)
      elif v is not None and str(v).strip():
          try:
              valor_normal = float(str(v).strip().replace(",", "."))
          except ValueError:
              valor_normal = None
  \<close>
\<close>

definition valor_de_texto :: "string \<Rightarrow> pyval" where
  "valor_de_texto t =
     (if py_strip t = [] then PNone
      else (case float_de_str (py_replace (CHR '','') (CHR ''.'') (py_strip t)) of
              Inl e \<Rightarrow> PNone
            | Inr f \<Rightarrow> PFloat f))"

fun valor_da_celula :: "pyval \<Rightarrow> excecao + pyval" where
  "valor_da_celula PNone = Inr PNone"
| "valor_da_celula (PBool b) = Inr (PFloat (Finito (if b then 1 else 0)))"
| "valor_da_celula (PInt i) =
     (case float_de_int i of Inl e \<Rightarrow> Inl e | Inr f \<Rightarrow> Inr (PFloat f))"
| "valor_da_celula (PFloat f) = Inr (PFloat f)"
| "valor_da_celula (PStr t) = Inr (valor_de_texto t)"
| "valor_da_celula (PDatetime d) = Inr (valor_de_texto (py_str_datetime d))"

definition valor_da_linha :: "string option \<Rightarrow> linha_dados \<Rightarrow> excecao + pyval" where
  "valor_da_linha total_key row =
     (case total_key of
        None \<Rightarrow> Inr PNone
      | Some k \<Rightarrow> if k = [] then Inr PNone else valor_da_celula (row_get row k))"

text \<open>
  The identifier text of a row: through \<open>_valor_ie_para_string\<close> for a text or a number,
  through \<open>str\<close> for another value that is not \<open>None\<close>.
\<close>

fun ie_da_celula :: "pyval \<Rightarrow> excecao + string option" where
  "ie_da_celula (PDatetime d) = Inr (Some (py_str_datetime d))"
| "ie_da_celula v = valor_ie_para_string v"

text \<open>The loop over the rows; a row without identifier text gives no item.\<close>

fun itens_das_linhas ::
  "string \<Rightarrow> string option \<Rightarrow> int \<Rightarrow> int \<Rightarrow> linha_dados list \<Rightarrow> excecao + item list" where
  "itens_das_linhas ie_key total_key m a [] = Inr []"
| "itens_das_linhas ie_key total_key m a (row # rows) =
     (case ie_da_celula (row_get row ie_key) of
        Inl e \<Rightarrow> Inl e
      | Inr None \<Rightarrow> itens_das_linhas ie_key total_key m a rows
      | Inr (Some ie_str) \<Rightarrow>
          (if ie_str = [] then itens_das_linhas ie_key total_key m a rows
           else (case valor_da_linha total_key row of
                   Inl e \<Rightarrow> Inl e
                 | Inr v \<Rightarrow>
                     (case itens_das_linhas ie_key total_key m a rows of
                        Inl e \<Rightarrow> Inl e
                      | Inr resultado \<Rightarrow>
                          Inr (\<lparr>item_ie = ie_str,
                                item_ie_digitos = ie_apenas_digitos ie_str,
                                item_valor_normal = v,
                                item_mes_ref = PInt m, item_ano_ref = PInt a\<rparr>
                               # resultado)))))"

definition MSG_PERIODO_OBRIGATORIO :: string where
  "MSG_PERIODO_OBRIGATORIO =
     ''Per'' @ [CHR 0xED] @ ''odo de refer'' @ [CHR 0xEA] @ ''ncia (mes_ref/ano_ref) '' @
     [CHR 0xE9] @ '' obrigat'' @ [CHR 0xF3] @ ''rio. Verifique a extra'' @ [CHR 0xE7] @
     [CHR 0xE3] @ ''o da planilha.''"

definition MSG_SEM_COLUNA_IE :: string where
  "MSG_SEM_COLUNA_IE =
     ''Coluna I.E. n'' @ [CHR 0xE3] @ ''o encontrada no mapeamento. Nenhum dado para DAE.''"

definition obter_dados_para_dae ::
  "linha_dados list \<Rightarrow> mapeamento \<Rightarrow> int option \<Rightarrow> int option \<Rightarrow> excecao + item list" where
  "obter_dados_para_dae linhas nome_para_indice mes_ref_opt ano_ref_opt =
     (case (mes_ref_opt, ano_ref_opt) of
        (Some m, Some a) \<Rightarrow>
          (case obter_chave_ie nome_para_indice of
             None \<Rightarrow> Inl (ValueError MSG_SEM_COLUNA_IE)
           | Some ie_key \<Rightarrow>
               itens_das_linhas ie_key (obter_chave_total nome_para_indice) m a linhas)
      | _ \<Rightarrow> Inl (ValueError MSG_PERIODO_OBRIGATORIO))"

section \<open>configuracoes.py: the selectors of the form\<close>

definition SELETOR_CAMPO_IE :: string where
  "SELETOR_CAMPO_IE = ''input[name='' @ [CHR 0x22] @ ''txtValor'' @ [CHR 0x22] @ '']''"

definition SELETOR_MES_REFERENCIA :: string where
  "SELETOR_MES_REFERENCIA = ''#txtMesPeriodoReferencia''"

definition SELETOR_ANO_REFERENCIA :: string where
  "SELETOR_ANO_REFERENCIA = ''#txtAnoPeriodoReferencia''"

definition SELETOR_DIA_PAGAMENTO :: string where
  "SELETOR_DIA_PAGAMENTO = ''input[name='' @ [CHR 0x22] @ ''txtDiaPagamento'' @ [CHR 0x22] @ '']''"

definition SELETOR_MES_PAGAMENTO :: string where
  "SELETOR_MES_PAGAMENTO = ''input[name='' @ [CHR 0x22] @ ''txtMesPagamento'' @ [CHR 0x22] @ '']''"

definition SELETOR_ANO_PAGAMENTO :: string where
  "SELETOR_ANO_PAGAMENTO = ''input[name='' @ [CHR 0x22] @ ''txtAnoPagamento'' @ [CHR 0x22] @ '']''"

definition SELETOR_VALOR_PRINCIPAL :: string where
  "SELETOR_VALOR_PRINCIPAL =
     ''input[name='' @ [CHR 0x22] @ ''txtValorPrincipal'' @ [CHR 0x22] @ '']''"

definition SELETOR_INPUT_CAPTCHA :: string where
  "SELETOR_INPUT_CAPTCHA = ''#strCAPTCHA''"

section \<open>The browser and the captcha service, as the orchestrator meets them\<close>

text \<open>
  The browser engine and the captcha service are outside the program. What they do is
  given to the model: for each awaited call, whether it returns or raises, and with which
  text \<open>str(e)\<close>. The file system (the folder of the screenshots, the temporary file of
  the captcha image) and the logger are taken to work.

  What the program does to the page is recorded as the list of the \<open>fill\<close> calls that
  returned, oldest first: the selector and the text written.
\<close>

datatype chamada = Fill string string | Outra

type_synonym escritas = "(string \<times> string) list"

fun escritas_de :: "chamada list \<Rightarrow> escritas" where
  "escritas_de [] = []"
| "escritas_de (Fill sel txt # cs) = (sel, txt) # escritas_de cs"
| "escritas_de (Outra # cs) = escritas_de cs"

text \<open>
  A run of awaited calls inside one \<open>try\<close>. \<open>Some (k, m)\<close> says that call number \<open>k\<close>
  (from 0) raises with the text \<open>m\<close>, the calls before it having returned; \<open>None\<close>, or a
  \<open>k\<close> past the last call, that all of them return.
\<close>

type_synonym falha = "(nat \<times> string) option"

definition executa :: "falha \<Rightarrow> chamada list \<Rightarrow> escritas \<Rightarrow> excecao option \<times> escritas" where
  "executa f cs esc =
     (case f of
        None \<Rightarrow> (None, esc @ escritas_de cs)
      | Some (k, m) \<Rightarrow>
          if k < length cs then (Some (Erro m), esc @ escritas_de (take k cs))
          else (None, esc @ escritas_de cs))"

definition apos :: "nat \<Rightarrow> falha \<Rightarrow> falha" where
  "apos n f = map_option (\<lambda>(k, m). (k - n, m)) f"

text \<open>What the captcha service answers: nothing, a number (0 on an error), or a text.\<close>

datatype solucao = SNone | SInt int | SStr string

text \<open>The behaviour of the outside world while one item is processed.\<close>

record respostas =
  r_recarga :: "string option"
  r_ie :: falha
  r_receita_visivel :: bool
  r_captura :: "string option"
  r_receita_dae :: "string option"
  r_form_visivel :: "string option"
  r_formulario :: falha
  r_captcha_visivel :: bool
  r_captcha_imagem :: "string option"
  r_servico :: "string + solucao"
  r_captcha_fill :: falha

text \<open>
  \<^item> \<open>r_recarga\<close>: the pause and \<open>_acessar_pagina_inicial\<close> before an item that is not
    the first (\<open>Some m\<close>: it raises).
  \<^item> \<open>r_ie\<close>: the five calls of the outer \<open>try\<close> of \<open>_preencher_ie_e_avancar\<close>.
  \<^item> \<open>r_receita_visivel\<close>: the receipt selector shows within \<open>TIMEOUT_IE_ENCONTRADA_MS\<close>.
  \<^item> \<open>r_captura\<close>: \<open>tirar_captura_de_tela_em_erro\<close>, whose \<open>pagina.screenshot\<close> may raise.
  \<^item> \<open>r_receita_dae\<close>: \<open>_selecionar_receita_e_preencher_dae\<close> (three calls, none writes).
  \<^item> \<open>r_form_visivel\<close>: the wait for the month field of the form.
  \<^item> \<open>r_formulario\<close>: the \<open>fill\<close> calls of \<open>_preencher_formulario_dae\<close>.
  \<^item> \<open>r_captcha_visivel\<close>: the captcha image shows within the element timeout.
  \<^item> \<open>r_captcha_imagem\<close>: the screenshot of the captcha image.
  \<^item> \<open>r_servico\<close>: the answer of the captcha service, or the exception of the call.
  \<^item> \<open>r_captcha_fill\<close>: the two \<open>fill\<close> calls of the captcha field.
\<close>

record mundo =
  w_iniciar :: "string option"
  w_acesso :: "string option"
  w_itens :: "nat \<Rightarrow> respostas"
  w_encerrar :: "string option"

section \<open>resolver\_captcha.py\<close>

text \<open>
  \<^verbatim>\<open>
  texto = solver.solve_and_return_solution(caminho_imagem)
  if texto is None or texto == 0 or (isinstance(texto, str) and not texto.strip()):
      return None
  resultado = texto.strip() if isinstance(texto, str) else str(texto).strip()
  return resultado
  \<close>
\<close>

definition resolver_imagem :: "string + solucao \<Rightarrow> string + string option" where
  "resolver_imagem servico =
     (case servico of
        Inl m \<Rightarrow> Inl m
      | Inr SNone \<Rightarrow> Inr None
      | Inr (SInt i) \<Rightarrow> if i = 0 then Inr None else Inr (Some (py_strip (py_str_int i)))
      | Inr (SStr t) \<Rightarrow> if py_strip t = [] then Inr None else Inr (Some (py_strip t)))"

section \<open>automacao\_sefaz\_ce.py: the steps\<close>

text \<open>
  \<^verbatim>\<open>
  def _valor_total_invalido(valor: object) -> bool:
      if valor is None:
          return True
      if isinstance(valor, (int, float)) and valor == 0:
          return True
      if isinstance(valor, str):
          s = valor.strip().lower()
          if not s or s == "null":
              return True
      return False
  \<close>
\<close>

fun valor_total_invalido :: "pyval \<Rightarrow> bool" where
  "valor_total_invalido PNone = True"
| "valor_total_invalido (PBool b) = (\<not> b)"
| "valor_total_invalido (PInt i) = (i = 0)"
| "valor_total_invalido (PFloat f) = (f = Finito 0 \<or> f = MenosZero)"
| "valor_total_invalido (PStr valor) =
     (let s = py_lower (py_strip valor) in s = [] \<or> s = ''null'')"
| "valor_total_invalido (PDatetime d) = False"

text \<open>
  \<open>_preencher_ie_e_avancar\<close>: \<open>True\<close> when the receipt selector shows. An exception of
  the field or of the button is logged, a screenshot is taken and the result is \<open>False\<close>;
  the screenshot call stands in the handler, outside any \<open>try\<close>.
\<close>

definition preencher_ie_e_avancar ::
  "respostas \<Rightarrow> string \<Rightarrow> escritas \<Rightarrow> (excecao + bool) \<times> escritas" where
  "preencher_ie_e_avancar r ie_dig esc =
     (case executa (r_ie r)
             [Outra, Fill SELETOR_CAMPO_IE [], Fill SELETOR_CAMPO_IE ie_dig, Outra, Outra] esc of
        (None, esc') \<Rightarrow> (Inr (r_receita_visivel r), esc')
      | (Some e, esc') \<Rightarrow>
          (case r_captura r of
             Some m \<Rightarrow> (Inl (Erro m), esc')
           | None \<Rightarrow> (Inr False, esc')))"

definition selecionar_receita_e_preencher_dae :: "respostas \<Rightarrow> excecao option" where
  "selecionar_receita_e_preencher_dae r = map_option Erro (r_receita_dae r)"

text \<open>
  \<^verbatim>\<open>
  mes_str = f"{mes_ref:02d}"
  ano_str = str(ano_ref)
  fill(SELETOR_MES_REFERENCIA, mes_str); fill(SELETOR_ANO_REFERENCIA, ano_str)
  if mes_ref == 12:
      mes_pag, ano_pag = 1, ano_ref + 1
  else:
      mes_pag, ano_pag = mes_ref + 1, ano_ref
  fill(SELETOR_DIA_PAGAMENTO, "20")
  fill(SELETOR_MES_PAGAMENTO, f"{mes_pag:02d}")
  fill(SELETOR_ANO_PAGAMENTO, str(ano_pag))
  if valor_principal is not None:
      valor_str = f"{valor_principal:.2f}".replace(",", ".")
      fill(SELETOR_VALOR_PRINCIPAL, valor_str)
  \<close>
\<close>

definition preencher_formulario_dae ::
  "falha \<Rightarrow> int \<Rightarrow> int \<Rightarrow> pyval \<Rightarrow> escritas \<Rightarrow> excecao option \<times> escritas" where
  "preencher_formulario_dae f mes ano valor_principal esc =
     (let mes_str = fmt_02d mes;
          ano_str = py_str_int ano;
          (mes_pag, ano_pag) = (if mes = 12 then (1, ano + 1) else (mes + 1, ano))
      in case executa f
                [Fill SELETOR_MES_REFERENCIA mes_str, Fill SELETOR_ANO_REFERENCIA ano_str,
                 Fill SELETOR_DIA_PAGAMENTO ''20'',
                 Fill SELETOR_MES_PAGAMENTO (fmt_02d mes_pag),
                 Fill SELETOR_ANO_PAGAMENTO (py_str_int ano_pag)] esc of
           (Some e, esc') \<Rightarrow> (Some e, esc')
         | (None, esc') \<Rightarrow>
             (if valor_principal = PNone then (None, esc')
              else (case fmt_2f valor_principal of
                      Inl e \<Rightarrow> (Some e, esc')
                    | Inr txt \<Rightarrow>
                        executa (apos 5 f)
                          [Fill SELETOR_VALOR_PRINCIPAL (py_replace (CHR '','') (CHR ''.'') txt)]
                          esc')))"

text \<open>
  \<open>_resolver_e_preencher_captcha\<close>: \<open>True\<close> when there is no captcha image or when the
  captcha was solved and written, \<open>False\<close> on any failure after the image showed.
  \<^verbatim>\<open>
  if not texto:
      return False
  campo.fill("")
  campo.fill(texto[:6])
  return True
  \<close>
\<close>

definition resolver_e_preencher_captcha :: "respostas \<Rightarrow> escritas \<Rightarrow> bool \<times> escritas" where
  "resolver_e_preencher_captcha r esc =
     (if \<not> r_captcha_visivel r then (True, esc)
      else if r_captcha_imagem r \<noteq> None then (False, esc)
      else (case resolver_imagem (r_servico r) of
              Inl m \<Rightarrow> (False, esc)
            | Inr None \<Rightarrow> (False, esc)
            | Inr (Some texto) \<Rightarrow>
                if texto = [] then (False, esc)
                else (case executa (r_captcha_fill r)
                             [Fill SELETOR_INPUT_CAPTCHA [],
                              Fill SELETOR_INPUT_CAPTCHA (take 6 texto)] esc of
                        (None, esc') \<Rightarrow> (True, esc')
                      | (Some e, esc') \<Rightarrow> (False, esc'))))"

section \<open>automacao\_sefaz\_ce.py: the loop over the items\<close>

definition MSG_PERIODO_AUSENTE :: string where
  "MSG_PERIODO_AUSENTE =
     ''Per'' @ [CHR 0xED] @ ''odo (m'' @ [CHR 0xEA] @ ''s/ano) ausente nos dados da planilha''"

definition MSG_IE_INVALIDA :: string where
  "MSG_IE_INVALIDA = ''IE inv'' @ [CHR 0xE1] @ ''lida ou vazia''"

definition MSG_IE_NAO_ENCONTRADA :: string where
  "MSG_IE_NAO_ENCONTRADA =
     ''IE n'' @ [CHR 0xE3] @ ''o encontrada no site ao clicar em Avan'' @ [CHR 0xE7] @ ''ar''"

definition MSG_FALHA_RECEITA :: string where
  "MSG_FALHA_RECEITA = ''Falha ao selecionar receita ou Preencher DAE''"

definition MSG_FALHA_FORMULARIO :: string where
  "MSG_FALHA_FORMULARIO = ''Falha ao preencher formul'' @ [CHR 0xE1] @ ''rio''"

definition MSG_FALHA_CAPTCHA :: string where
  "MSG_FALHA_CAPTCHA = ''Falha ao resolver ou preencher o captcha''"

text \<open>
  The state of the loop: the two result lists and the writes made so far.
\<close>

record estado =
  ies_sucesso :: "string list"
  ies_erro :: "(string \<times> string) list"
  escritas :: escritas

definition registra_erro :: "estado \<Rightarrow> string \<Rightarrow> string \<Rightarrow> estado" where
  "registra_erro st rotulo motivo = st\<lparr>ies_erro := ies_erro st @ [(rotulo, motivo)]\<rparr>"

definition registra_sucesso :: "estado \<Rightarrow> string \<Rightarrow> estado" where
  "registra_sucesso st rotulo = st\<lparr>ies_sucesso := ies_sucesso st @ [rotulo]\<rparr>"

text \<open>\<open>ie or "(vazio)"\<close>.\<close>

definition rotulo :: "string \<Rightarrow> string" where
  "rotulo s = (if s = [] then ''(vazio)'' else s)"

text \<open>
  \<^verbatim>\<open>
  motivo = str(e).split("\n")[0].strip() if str(e) else padrao
  if len(motivo) > 80:
      motivo = motivo[:77] + "..."
  \<close>
\<close>

definition motivo_de :: "string \<Rightarrow> string \<Rightarrow> string" where
  "motivo_de texto padrao =
     (let motivo = (if texto \<noteq> [] then py_strip (takeWhile (\<lambda>c. c \<noteq> CHR 0x0A) texto)
                    else padrao)
      in if 80 < length motivo then take 77 motivo @ ''...'' else motivo)"

text \<open>
  The handler of steps 2, 3 and 4:
  \<^verbatim>\<open>
  except Exception as e:
      logger.exception(...)
      await tirar_captura_de_tela_em_erro(self._pagina, self._nome_captura_erro(etapa, ie))
      motivo = ...
      ies_erro.append((ie, motivo))
      continue
  \<close>
  The screenshot call is not inside a \<open>try\<close> of its own: when it raises, its exception
  leaves the handler and the loop.
\<close>

definition trata_excecao :: "respostas \<Rightarrow> estado \<Rightarrow> string \<Rightarrow> excecao \<Rightarrow> string \<Rightarrow> excecao + estado" where
  "trata_excecao r st ie_txt e padrao =
     (case r_captura r of
        Some m \<Rightarrow> Inl (Erro m)
      | None \<Rightarrow> Inr (registra_erro st ie_txt (motivo_de (str_exc e) padrao)))"

text \<open>
  Step 4. No exception of the browser or of the service leaves
  \<open>_resolver_e_preencher_captcha\<close>, so the handler around its call has nothing to catch.
\<close>

definition passo4 :: "respostas \<Rightarrow> string \<Rightarrow> estado \<Rightarrow> excecao + estado" where
  "passo4 r ie_txt st =
     (case resolver_e_preencher_captcha r (escritas st) of
        (ok_captcha, esc') \<Rightarrow>
          if \<not> ok_captcha then Inr (registra_erro (st\<lparr>escritas := esc'\<rparr>) ie_txt MSG_FALHA_CAPTCHA)
          else Inr (registra_sucesso (st\<lparr>escritas := esc'\<rparr>) ie_txt))"

definition passo3 :: "respostas \<Rightarrow> string \<Rightarrow> int \<Rightarrow> int \<Rightarrow> pyval \<Rightarrow> estado \<Rightarrow> excecao + estado" where
  "passo3 r ie_txt mes ano valor st =
     (case r_form_visivel r of
        Some m \<Rightarrow> trata_excecao r st ie_txt (Erro m) MSG_FALHA_FORMULARIO
      | None \<Rightarrow>
          (case preencher_formulario_dae (r_formulario r) mes ano valor (escritas st) of
             (Some e, esc') \<Rightarrow>
               trata_excecao r (st\<lparr>escritas := esc'\<rparr>) ie_txt e MSG_FALHA_FORMULARIO
           | (None, esc') \<Rightarrow> passo4 r ie_txt (st\<lparr>escritas := esc'\<rparr>)))"

definition passo2 :: "respostas \<Rightarrow> string \<Rightarrow> int \<Rightarrow> int \<Rightarrow> pyval \<Rightarrow> estado \<Rightarrow> excecao + estado" where
  "passo2 r ie_txt mes ano valor st =
     (case selecionar_receita_e_preencher_dae r of
        Some e \<Rightarrow> trata_excecao r st ie_txt e MSG_FALHA_RECEITA
      | None \<Rightarrow> passo3 r ie_txt mes ano valor st)"

definition passo1 ::
  "respostas \<Rightarrow> string \<Rightarrow> string \<Rightarrow> int \<Rightarrow> int \<Rightarrow> pyval \<Rightarrow> estado \<Rightarrow> excecao + estado" where
  "passo1 r ie_txt ie_dig mes ano valor st =
     (case preencher_ie_e_avancar r ie_dig (escritas st) of
        (Inl e, esc') \<Rightarrow> Inl e
      | (Inr ok, esc') \<Rightarrow>
          if \<not> ok then Inr (registra_erro (st\<lparr>escritas := esc'\<rparr>) ie_txt MSG_IE_NAO_ENCONTRADA)
          else passo2 r ie_txt mes ano valor (st\<lparr>escritas := esc'\<rparr>))"

text \<open>
  The conversion of the period, inside \<open>try ... except (TypeError, ValueError)\<close>: an
  exception of another class is not caught there.
\<close>

datatype periodo_lido = Periodo int int | Ausente | Propaga excecao

fun classifica :: "excecao \<Rightarrow> periodo_lido" where
  "classifica (TypeError m) = Ausente"
| "classifica (ValueError m) = Ausente"
| "classifica e = Propaga e"

definition le_periodo :: "item \<Rightarrow> periodo_lido" where
  "le_periodo it =
     (case py_int (item_mes_ref it) of
        Inl e \<Rightarrow> classifica e
      | Inr mes \<Rightarrow>
          (case py_int (item_ano_ref it) of
             Inl e \<Rightarrow> classifica e
           | Inr ano \<Rightarrow> Periodo mes ano))"

text \<open>
  The body of the loop for the item at position \<open>indice\<close>: the three checks in the order
  of the source (period, identifier, amount), the pause and the reload before every item
  but the first, then the four steps.
\<close>

definition processa_item :: "respostas \<Rightarrow> nat \<Rightarrow> item \<Rightarrow> estado \<Rightarrow> excecao + estado" where
  "processa_item r indice it st =
     (case le_periodo it of
        Propaga e \<Rightarrow> Inl e
      | Ausente \<Rightarrow> Inr (registra_erro st (rotulo (item_ie it)) MSG_PERIODO_AUSENTE)
      | Periodo mes ano \<Rightarrow>
          if item_ie it = [] \<or> item_ie_digitos it = []
          then Inr (registra_erro st (rotulo (item_ie it)) MSG_IE_INVALIDA)
          else if valor_total_invalido (item_valor_normal it) then Inr st
          else (case (if 0 < indice then r_recarga r else None) of
                  Some m \<Rightarrow> Inl (Erro m)
                | None \<Rightarrow>
                    passo1 r (item_ie it) (item_ie_digitos it) mes ano (item_valor_normal it) st))"

text \<open>
  The items for which the amount check is reached and ends the iteration: the period
  converts, the two identifier texts are not empty, and the amount is invalid.
\<close>

definition pulado_por_valor :: "item \<Rightarrow> bool" where
  "pulado_por_valor it =
     (case le_periodo it of
        Periodo mes ano \<Rightarrow>
          item_ie it \<noteq> [] \<and> item_ie_digitos it \<noteq> [] \<and>
          valor_total_invalido (item_valor_normal it)
      | _ \<Rightarrow> False)"

fun laco :: "(nat \<Rightarrow> respostas) \<Rightarrow> nat \<Rightarrow> item list \<Rightarrow> estado \<Rightarrow> excecao + estado" where
  "laco rs indice [] st = Inr st"
| "laco rs indice (it # its) st =
     (case processa_item (rs indice) indice it st of
        Inl e \<Rightarrow> Inl e
      | Inr st' \<Rightarrow> laco rs (Suc indice) its st')"

definition estado_inicial :: estado where
  "estado_inicial = \<lparr>ies_sucesso = [], ies_erro = [], escritas = []\<rparr>"

text \<open>
  \<open>executar_fluxo_por_ie\<close>: the browser is started and the entry page loaded, the loop
  runs, and the \<open>finally\<close> block closes the browser whatever happened; an exception of
  the closing replaces the one in flight. The result is the pair of lists, or the
  exception that left the method.
\<close>

definition executar_fluxo_por_ie ::
  "mundo \<Rightarrow> item list \<Rightarrow> excecao + (string list \<times> (string \<times> string) list)" where
  "executar_fluxo_por_ie w lista_dados =
     (let corpo = (case w_iniciar w of
                     Some m \<Rightarrow> Inl (Erro m)
                   | None \<Rightarrow>
                       (case w_acesso w of
                          Some m \<Rightarrow> Inl (Erro m)
                        | None \<Rightarrow> laco (w_itens w) 0 lista_dados estado_inicial))
      in case w_encerrar w of
           Some m \<Rightarrow> Inl (Erro m)
         | None \<Rightarrow>
             (case corpo of
                Inl e \<Rightarrow> Inl e
              | Inr st \<Rightarrow> Inr (ies_sucesso st, ies_erro st)))"

text \<open>A world in which every call returns and the captcha service answers \<open>t\<close>.\<close>

definition respostas_calmas :: "string \<Rightarrow> respostas" where
  "respostas_calmas t =
     \<lparr>r_recarga = None, r_ie = None, r_receita_visivel = True, r_captura = None,
      r_receita_dae = None, r_form_visivel = None, r_formulario = None,
      r_captcha_visivel = True, r_captcha_imagem = None, r_servico = Inr (SStr t),
      r_captcha_fill = None\<rparr>"

definition mundo_de :: "(nat \<Rightarrow> respostas) \<Rightarrow> mundo" where
  "mundo_de rs = \<lparr>w_iniciar = None, w_acesso = None, w_itens = rs, w_encerrar = None\<rparr>"

section \<open>Sample inputs\<close>

text \<open>
  An item as the builder makes it from a row with identifier \<open>06.123.456-7\<close> and amount
  1000, for the period 12/2025, and variants of it; worlds in which every call returns and
  the captcha service answers \<open>AB12CD34\<close>, but for the calls named.
\<close>

definition item_exemplo :: item where
  "item_exemplo =
     \<lparr>item_ie = ''06.123.456-7'', item_ie_digitos = ''061234567'',
      item_valor_normal = PFloat (Finito 1000),
      item_mes_ref = PInt 12, item_ano_ref = PInt 2025\<rparr>"

definition item_sem_valor :: item where
  "item_sem_valor = item_exemplo\<lparr>item_valor_normal := PNone\<rparr>"

definition item_sem_valor_sem_ie :: item where
  "item_sem_valor_sem_ie = item_exemplo\<lparr>item_ie := [], item_valor_normal := PNone\<rparr>"

definition item_outro :: item where
  "item_outro = item_exemplo\<lparr>item_ie := ''07.000.111-2'', item_ie_digitos := ''070001112''\<rparr>"

definition mundo_calmo :: mundo where
  "mundo_calmo = mundo_de (\<lambda>i. respostas_calmas ''AB12CD34'')"

definition respostas_receita_falha :: respostas where
  "respostas_receita_falha =
     (respostas_calmas ''AB12CD34'')\<lparr>r_receita_dae := Some ''Timeout 30000ms exceeded.''\<rparr>"

definition mundo_receita_falha :: mundo where
  "mundo_receita_falha =
     mundo_de (\<lambda>i. if i = 0 then respostas_receita_falha else respostas_calmas ''AB12CD34'')"

definition mundo_captura_falha :: mundo where
  "mundo_captura_falha =
     mundo_de (\<lambda>i. if i = 0 then respostas_receita_falha\<lparr>r_captura := Some ''Target closed''\<rparr>
                    else respostas_calmas ''AB12CD34'')"

definition respostas_sem_captcha :: respostas where
  "respostas_sem_captcha = (respostas_calmas ''AB12CD34'')\<lparr>r_captcha_visivel := False\<rparr>"

definition respostas_captcha_em_branco :: respostas where
  "respostas_captcha_em_branco = respostas_calmas ''  ''"

text \<open>A sheet without TOTAL column: its column mapping and its data rows.\<close>

definition mapa_sem_total :: mapeamento where
  "mapa_sem_total = [(''INSC.ESTADUAL'', 0), (''NORMAL'', 1)]"

definition linhas_exemplo :: "linha_dados list" where
  "linhas_exemplo =
     [[''INSC.ESTADUAL'' \<mapsto> PStr ''06.123.456-7'', ''NORMAL'' \<mapsto> PFloat (Finito 1000)],
      [''INSC.ESTADUAL'' \<mapsto> PInt 61234567, ''NORMAL'' \<mapsto> PInt 25]]"

text \<open>A sheet whose title area holds no period.\<close>

definition planilha_sem_periodo :: planilha where
  "planilha_sem_periodo =
     [Celulas [PStr ''Filial'', PNone, PInt 7], Ilegivel,
      Celulas [PStr ''INSC.ESTADUAL'', PStr ''TOTAL'']]"

text \<open>A sheet with a TOTAL column and a row whose amount is written with a comma.\<close>

definition mapa_com_total :: mapeamento where
  "mapa_com_total = [(''INSC.ESTADUAL'', 0), (''NORMAL'', 1), (''TOTAL'', 2)]"

definition linhas_virgula :: "linha_dados list" where
  "linhas_virgula =
     [[''INSC.ESTADUAL'' \<mapsto> PStr ''06.123.456-7'', ''TOTAL'' \<mapsto> PStr ''1277,39'']]"

section \<open>The ledger as a count\<close>

text \<open>
  The labels recorded in the two result lists together, with their multiplicities; and
  the relation between two states when exactly one entry with a given label was added, to
  exactly one of the lists.
\<close>

definition contagem :: "estado \<Rightarrow> string multiset" where
  "contagem st = mset (ies_sucesso st) + mset (map fst (ies_erro st))"

definition um_registro :: "estado \<Rightarrow> string \<Rightarrow> estado \<Rightarrow> bool" where
  "um_registro st l st' \<longleftrightarrow>
     (ies_sucesso st' = ies_sucesso st @ [l] \<and> ies_erro st' = ies_erro st) \<or>
     (ies_sucesso st' = ies_sucesso st \<and> (\<exists>m. ies_erro st' = ies_erro st @ [(l, m)]))"

section \<open>Facts about the text functions\<close>

lemma py_isdigit_not_space: "py_isspace c \<Longrightarrow> \<not> py_isdigit c"
  by (auto simp: py_isspace_def py_isdigit_def py_isdecimal_def)

lemma py_isdigit_not_sign: "py_isdigit c \<Longrightarrow> c \<noteq> CHR ''+'' \<and> c \<noteq> CHR ''-''"
  by (auto simp: py_isdigit_def py_isdecimal_def)

lemma filter_dropWhile_disjoint:
  "(\<And>x. Q x \<Longrightarrow> \<not> P x) \<Longrightarrow> filter P (dropWhile Q xs) = filter P xs"
  by (induction xs) auto

lemma filter_isdigit_strip: "filter py_isdigit (py_strip s) = filter py_isdigit s"
proof -
  have "filter py_isdigit (py_strip s)
      = rev (filter py_isdigit (dropWhile py_isspace (rev (dropWhile py_isspace s))))"
    by (simp add: py_strip_def rev_filter)
  also have "\<dots> = rev (filter py_isdigit (rev (dropWhile py_isspace s)))"
    by (simp add: filter_dropWhile_disjoint py_isdigit_not_space)
  also have "\<dots> = filter py_isdigit (dropWhile py_isspace s)"
    by (simp add: rev_filter)
  also have "\<dots> = filter py_isdigit s"
    by (simp add: filter_dropWhile_disjoint py_isdigit_not_space)
  finally show ?thesis .
qed

lemma py_zfill_digits:
  assumes "\<forall>c \<in> set d. py_isdigit c"
  shows "py_zfill w d = replicate (w - length d) (CHR ''0'') @ d"
proof (cases d)
  case Nil
  then show ?thesis by (simp add: py_zfill_def)
next
  case (Cons c r)
  with assms have "c \<noteq> CHR ''+'' \<and> c \<noteq> CHR ''-''"
    by (simp add: py_isdigit_not_sign)
  with Cons show ?thesis by (simp add: py_zfill_def)
qed

lemma ie_apenas_digitos_shape:
  assumes "ie \<noteq> []"
  shows "ie_apenas_digitos ie =
           (if length (filter py_isdigit ie) \<le> 9
            then replicate (9 - length (filter py_isdigit ie)) (CHR ''0'') @ filter py_isdigit ie
            else take 9 (filter py_isdigit ie))"
proof -
  have "\<forall>c \<in> set (filter py_isdigit ie). py_isdigit c" by simp
  then have "py_zfill 9 (filter py_isdigit ie)
           = replicate (9 - length (filter py_isdigit ie)) (CHR ''0'') @ filter py_isdigit ie"
    by (rule py_zfill_digits)
  with assms show ?thesis
    by (simp add: ie_apenas_digitos_def Let_def DIGITOS_IE_CE_def filter_isdigit_strip)
qed

section \<open>The identifier in digits: length and padding\<close>

text \<open>
  C6. For every non-empty identifier text, the digits-only identifier has exactly nine
  characters: it is made of the digit characters of the input, in order, with zeros on the
  left when there are at most nine of them, and cut to the first nine otherwise.
\<close>

theorem C6_ie_apenas_digitos_length:
  assumes "ie \<noteq> []"
  shows "length (ie_apenas_digitos ie) = 9 \<and>
         ie_apenas_digitos ie =
           (if length (filter py_isdigit ie) \<le> 9
            then replicate (9 - length (filter py_isdigit ie)) (CHR ''0'') @ filter py_isdigit ie
            else take 9 (filter py_isdigit ie))"
proof -
  let ?d = "filter py_isdigit ie"
  have shape: "ie_apenas_digitos ie =
      (if length ?d \<le> 9 then replicate (9 - length ?d) (CHR ''0'') @ ?d else take 9 ?d)"
    using assms by (rule ie_apenas_digitos_shape)
  have "length (if length ?d \<le> 9 then replicate (9 - length ?d) (CHR ''0'') @ ?d
                else take 9 ?d) = 9"
    by simp
  with shape show ?thesis by simp
qed

theorem C6_ie_apenas_digitos_length_witness:
  "''06.123.456-7'' \<noteq> [] \<and> length (ie_apenas_digitos ''06.123.456-7'') = 9 \<and>
   ie_apenas_digitos ''06.123.456-7'' = ''061234567'' \<and>
   ie_apenas_digitos ''12'' = ''000000012'' \<and>
   ie_apenas_digitos ''12345678901'' = ''123456789''"
proof -
  have ne: "''06.123.456-7'' \<noteq> []" by simp
  have a: "ie_apenas_digitos ''06.123.456-7'' = ''061234567''"
    using C6_ie_apenas_digitos_length [OF ne]
    by (simp add: py_isdigit_def py_isdecimal_def)
  have b: "ie_apenas_digitos ''12'' = ''000000012''"
    using C6_ie_apenas_digitos_length [of "''12''"]
    by (simp add: py_isdigit_def py_isdecimal_def numeral_eq_Suc)
  have c: "ie_apenas_digitos ''12345678901'' = ''123456789''"
    using C6_ie_apenas_digitos_length [of "''12345678901''"]
    by (simp add: py_isdigit_def py_isdecimal_def)
  from a b c show ?thesis by simp
qed

text \<open>
  C9. A non-empty identifier text without any digit character is not rejected: its
  digits-only form is nine zeros, and that is the text step 1 writes into the identifier
  field of the portal when the calls on the field return.
\<close>

theorem C9_ie_apenas_digitos_no_digit:
  assumes "ie \<noteq> []" and "\<forall>c \<in> set ie. \<not> py_isdigit c"
  shows "ie_apenas_digitos ie = ''000000000'' \<and>
         (r_ie r = None \<longrightarrow>
            preencher_ie_e_avancar r (ie_apenas_digitos ie) esc =
              (Inr (r_receita_visivel r),
               esc @ [(SELETOR_CAMPO_IE, []), (SELETOR_CAMPO_IE, ''000000000'')]))"
proof -
  from assms(2) have "filter py_isdigit ie = []"
    by (simp add: filter_empty_conv)
  with ie_apenas_digitos_shape [OF assms(1)] have z: "ie_apenas_digitos ie = ''000000000''"
    by (simp add: numeral_eq_Suc)
  have "preencher_ie_e_avancar r ''000000000'' esc =
      (Inr (r_receita_visivel r),
       esc @ [(SELETOR_CAMPO_IE, []), (SELETOR_CAMPO_IE, ''000000000'')])"
    if "r_ie r = None"
    using that by (simp add: preencher_ie_e_avancar_def executa_def)
  with z show ?thesis by simp
qed

theorem C9_ie_apenas_digitos_no_digit_witness:
  "''ABC'' \<noteq> [] \<and> filter py_isdigit ''ABC'' = [] \<and>
   ie_apenas_digitos ''ABC'' = ''000000000'' \<and>
   preencher_ie_e_avancar (respostas_calmas ''AB12CD34'') (ie_apenas_digitos ''ABC'') [] =
     (Inr True, [(SELETOR_CAMPO_IE, []), (SELETOR_CAMPO_IE, ''000000000'')])"
proof -
  have ne: "''ABC'' \<noteq> []" by simp
  have nd: "\<forall>c \<in> set ''ABC''. \<not> py_isdigit c"
    by (simp add: py_isdigit_def py_isdecimal_def)
  from nd have f: "filter py_isdigit ''ABC'' = []"
    by (simp only: filter_empty_conv)
  have r: "r_ie (respostas_calmas ''AB12CD34'') = None"
    and v: "r_receita_visivel (respostas_calmas ''AB12CD34'')"
    by (simp_all add: respostas_calmas_def)
  note inst = C9_ie_apenas_digitos_no_digit [OF ne nd, of "respostas_calmas ''AB12CD34''" "[]"]
  from inst have z: "ie_apenas_digitos ''ABC'' = ''000000000''" ..
  from inst have
    "r_ie (respostas_calmas ''AB12CD34'') = None \<longrightarrow>
     preencher_ie_e_avancar (respostas_calmas ''AB12CD34'') (ie_apenas_digitos ''ABC'') [] =
       (Inr (r_receita_visivel (respostas_calmas ''AB12CD34'')),
        [] @ [(SELETOR_CAMPO_IE, []), (SELETOR_CAMPO_IE, ''000000000'')])" ..
  with r have
    "preencher_ie_e_avancar (respostas_calmas ''AB12CD34'') (ie_apenas_digitos ''ABC'') [] =
       (Inr (r_receita_visivel (respostas_calmas ''AB12CD34'')),
        [] @ [(SELETOR_CAMPO_IE, []), (SELETOR_CAMPO_IE, ''000000000'')])" by blast
  with v have p:
    "preencher_ie_e_avancar (respostas_calmas ''AB12CD34'') (ie_apenas_digitos ''ABC'') [] =
       (Inr True, [(SELETOR_CAMPO_IE, []), (SELETOR_CAMPO_IE, ''000000000'')])"
    by (simp only: append_Nil simp_thms)
  from ne f z p show ?thesis by blast
qed

section \<open>Facts about the loop\<close>

lemmas modelo_defs =
  executar_fluxo_por_ie_def mundo_de_def estado_inicial_def processa_item_def le_periodo_def
  registra_erro_def registra_sucesso_def rotulo_def passo1_def passo2_def passo3_def passo4_def
  trata_excecao_def preencher_ie_e_avancar_def selecionar_receita_e_preencher_dae_def
  preencher_formulario_dae_def resolver_e_preencher_captcha_def resolver_imagem_def
  executa_def apos_def respostas_calmas_def motivo_de_def

lemmas texto_defs =
  py_strip_def py_isspace_def fmt_02d_def fmt_0d_def py_str_int_def decimal_nat.simps
  py_replace_def fmt_2f_float_def arredonda_par_def

lemmas amostra_defs =
  item_exemplo_def item_sem_valor_def item_sem_valor_sem_ie_def item_outro_def
  mundo_calmo_def mundo_receita_falha_def mundo_captura_falha_def respostas_receita_falha_def


lemma contagem_escritas [simp]: "contagem (st\<lparr>escritas := x\<rparr>) = contagem st"
  by (simp add: contagem_def)

lemma contagem_registra_erro [simp]:
  "contagem (registra_erro st l m) = contagem st + {#l#}"
  by (simp add: contagem_def registra_erro_def)

lemma contagem_registra_sucesso [simp]:
  "contagem (registra_sucesso st l) = contagem st + {#l#}"
  by (simp add: contagem_def registra_sucesso_def)

lemma trata_excecao_contagem:
  "trata_excecao r st l e p = Inr st' \<Longrightarrow> contagem st' = contagem st + {#l#}"
  by (auto simp: trata_excecao_def split: option.splits)

lemma passo4_contagem:
  "passo4 r l st = Inr st' \<Longrightarrow> contagem st' = contagem st + {#l#}"
  by (auto simp: passo4_def split: prod.splits if_splits)

lemma passo3_contagem:
  "passo3 r l mes ano v st = Inr st' \<Longrightarrow> contagem st' = contagem st + {#l#}"
  by (auto simp: passo3_def split: option.splits prod.splits
           dest: trata_excecao_contagem passo4_contagem)

lemma passo2_contagem:
  "passo2 r l mes ano v st = Inr st' \<Longrightarrow> contagem st' = contagem st + {#l#}"
  by (auto simp: passo2_def split: option.splits
           dest: trata_excecao_contagem passo3_contagem)

lemma passo1_contagem:
  "passo1 r l d mes ano v st = Inr st' \<Longrightarrow> contagem st' = contagem st + {#l#}"
  by (auto simp: passo1_def split: prod.splits sum.splits if_splits
           dest: passo2_contagem)

lemma rotulo_nonempty [simp]: "s \<noteq> [] \<Longrightarrow> rotulo s = s"
  by (simp add: rotulo_def)

lemma processa_item_pulado:
  "pulado_por_valor it \<Longrightarrow> processa_item r i it st = Inr st"
  by (auto simp: pulado_por_valor_def processa_item_def split: periodo_lido.splits)

lemma processa_item_contagem:
  assumes "processa_item r i it st = Inr st'"
  shows "contagem st' =
           contagem st + (if pulado_por_valor it then {#} else {#rotulo (item_ie it)#})"
proof (cases "pulado_por_valor it")
  case True
  with assms show ?thesis by (simp add: processa_item_pulado)
next
  case False
  with assms show ?thesis
    by (auto simp: pulado_por_valor_def processa_item_def
             split: periodo_lido.splits if_splits option.splits
             dest: passo1_contagem)
qed

lemma laco_contagem:
  "laco rs i its st = Inr st' \<Longrightarrow>
   contagem st' = contagem st +
     mset (map (\<lambda>it. rotulo (item_ie it)) (filter (\<lambda>it. \<not> pulado_por_valor it) its))"
proof (induction its arbitrary: i st)
  case Nil
  then show ?case by simp
next
  case (Cons it its)
  from Cons.prems obtain st1 where
    p: "processa_item (rs i) i it st = Inr st1" and l: "laco rs (Suc i) its st1 = Inr st'"
    by (auto split: sum.splits)
  from p have "contagem st1 =
      contagem st + (if pulado_por_valor it then {#} else {#rotulo (item_ie it)#})"
    by (rule processa_item_contagem)
  moreover from l have "contagem st' = contagem st1 +
      mset (map (\<lambda>it. rotulo (item_ie it)) (filter (\<lambda>it. \<not> pulado_por_valor it) its))"
    by (rule Cons.IH)
  ultimately show ?case by simp
qed

lemma executar_laco:
  "executar_fluxo_por_ie w its = Inr (suc, err) \<Longrightarrow>
   \<exists>st. laco (w_itens w) 0 its estado_inicial = Inr st \<and> suc = ies_sucesso st \<and> err = ies_erro st"
  by (auto simp: executar_fluxo_por_ie_def Let_def split: option.splits sum.splits)

lemma executar_contagem:
  assumes "executar_fluxo_por_ie w its = Inr (suc, err)"
  shows "mset suc + mset (map fst err) =
         mset (map (\<lambda>it. rotulo (item_ie it)) (filter (\<lambda>it. \<not> pulado_por_valor it) its))"
proof -
  from assms obtain st where
    l: "laco (w_itens w) 0 its estado_inicial = Inr st" and
    s: "suc = ies_sucesso st" "err = ies_erro st"
    by (auto dest: executar_laco)
  from l have "contagem st = contagem estado_inicial +
      mset (map (\<lambda>it. rotulo (item_ie it)) (filter (\<lambda>it. \<not> pulado_por_valor it) its))"
    by (rule laco_contagem)
  with s show ?thesis by (simp add: contagem_def estado_inicial_def)
qed


lemma um_registro_escritas [simp]:
  "um_registro (st\<lparr>escritas := x\<rparr>) l st' = um_registro st l st'"
  by (simp add: um_registro_def)

lemma um_registro_erro [simp]: "um_registro st l (registra_erro st l m)"
  by (simp add: um_registro_def registra_erro_def)

lemma um_registro_erro_esc [simp]: "um_registro st l (registra_erro (st\<lparr>escritas := x\<rparr>) l m)"
  by (simp add: um_registro_def registra_erro_def)

lemma um_registro_sucesso_esc [simp]: "um_registro st l (registra_sucesso (st\<lparr>escritas := x\<rparr>) l)"
  by (simp add: um_registro_def registra_sucesso_def)

lemma trata_excecao_um:
  "trata_excecao r st l e p = Inr st' \<Longrightarrow> um_registro st l st'"
  by (auto simp: trata_excecao_def split: option.splits)

lemma passo4_um: "passo4 r l st = Inr st' \<Longrightarrow> um_registro st l st'"
  by (auto simp: passo4_def split: prod.splits if_splits)

lemma passo3_um: "passo3 r l mes ano v st = Inr st' \<Longrightarrow> um_registro st l st'"
  by (auto simp: passo3_def split: option.splits prod.splits
           dest: trata_excecao_um passo4_um)

lemma passo2_um: "passo2 r l mes ano v st = Inr st' \<Longrightarrow> um_registro st l st'"
  by (auto simp: passo2_def split: option.splits dest: trata_excecao_um passo3_um)

lemma passo1_um: "passo1 r l d mes ano v st = Inr st' \<Longrightarrow> um_registro st l st'"
  by (auto simp: passo1_def split: prod.splits sum.splits if_splits dest: passo2_um)

lemma processa_item_um:
  assumes "processa_item r i it st = Inr st'" and "\<not> pulado_por_valor it"
  shows "um_registro st (rotulo (item_ie it)) st'"
  using assms
  by (auto simp: pulado_por_valor_def processa_item_def
           split: periodo_lido.splits if_splits option.splits dest: passo1_um)

section \<open>The two result lists\<close>

text \<open>
  C2. When the run returns, every item that the amount check did not skip stands for
  exactly one entry of the two result lists together: the labels of the succeeded list and
  of the failed list, counted with multiplicity, are the labels of those items. When those
  labels are pairwise different, no label is in both lists and each is in one of them. In
  the loop body, an item that is not skipped adds one entry to exactly one list.
\<close>

theorem C2_exactly_one_ledger:
  assumes "executar_fluxo_por_ie w its = Inr (suc, err)"
  shows "mset suc + mset (map fst err) =
           mset (map (\<lambda>it. rotulo (item_ie it)) (filter (\<lambda>it. \<not> pulado_por_valor it) its)) \<and>
         (distinct (map (\<lambda>it. rotulo (item_ie it)) (filter (\<lambda>it. \<not> pulado_por_valor it) its)) \<longrightarrow>
            set suc \<inter> fst ` set err = {} \<and>
            set suc \<union> fst ` set err =
              (\<lambda>it. rotulo (item_ie it)) ` {it \<in> set its. \<not> pulado_por_valor it}) \<and>
         (\<forall>r i it st st'. processa_item r i it st = Inr st' \<and> \<not> pulado_por_valor it \<longrightarrow>
            (ies_sucesso st' = ies_sucesso st @ [rotulo (item_ie it)] \<and> ies_erro st' = ies_erro st) \<or>
            (ies_sucesso st' = ies_sucesso st \<and>
             (\<exists>m. ies_erro st' = ies_erro st @ [(rotulo (item_ie it), m)])))"
proof -
  let ?ls = "map (\<lambda>it. rotulo (item_ie it)) (filter (\<lambda>it. \<not> pulado_por_valor it) its)"
  have eq: "mset suc + mset (map fst err) = mset ?ls"
    using assms by (rule executar_contagem)
  have part2: "set suc \<inter> fst ` set err = {} \<and>
      set suc \<union> fst ` set err = (\<lambda>it. rotulo (item_ie it)) ` {it \<in> set its. \<not> pulado_por_valor it}"
    if d: "distinct ?ls"
  proof -
    from d have "distinct (suc @ map fst err)"
      by (metis eq mset_append mset_eq_imp_distinct_iff)
    then have disj: "set suc \<inter> fst ` set err = {}" by auto
    from eq have "set_mset (mset suc + mset (map fst err)) = set_mset (mset ?ls)" by simp
    then have "set suc \<union> fst ` set err = set ?ls" by simp
    also have "set ?ls = (\<lambda>it. rotulo (item_ie it)) ` {it \<in> set its. \<not> pulado_por_valor it}"
      by auto
    finally show ?thesis using disj by simp
  qed
  have part3: "\<forall>r i it st st'. processa_item r i it st = Inr st' \<and> \<not> pulado_por_valor it \<longrightarrow>
            (ies_sucesso st' = ies_sucesso st @ [rotulo (item_ie it)] \<and> ies_erro st' = ies_erro st) \<or>
            (ies_sucesso st' = ies_sucesso st \<and>
             (\<exists>m. ies_erro st' = ies_erro st @ [(rotulo (item_ie it), m)]))"
    using processa_item_um by (simp add: um_registro_def) blast
  from eq part2 part3 show ?thesis by blast
qed

theorem C2_exactly_one_ledger_witness:
  "executar_fluxo_por_ie mundo_receita_falha [item_exemplo, item_sem_valor, item_outro] =
     Inr ([''07.000.111-2''], [(''06.123.456-7'', ''Timeout 30000ms exceeded.'')]) \<and>
   mset [''07.000.111-2''] + mset (map fst [(''06.123.456-7'', ''Timeout 30000ms exceeded.'')]) =
     mset (map (\<lambda>it. rotulo (item_ie it))
            (filter (\<lambda>it. \<not> pulado_por_valor it) [item_exemplo, item_sem_valor, item_outro])) \<and>
   filter (\<lambda>it. \<not> pulado_por_valor it) [item_exemplo, item_sem_valor, item_outro] =
     [item_exemplo, item_outro]"
proof -
  have run: "executar_fluxo_por_ie mundo_receita_falha [item_exemplo, item_sem_valor, item_outro] =
     Inr ([''07.000.111-2''], [(''06.123.456-7'', ''Timeout 30000ms exceeded.'')])"
    by (simp add: modelo_defs texto_defs amostra_defs Let_def)
  have f: "filter (\<lambda>it. \<not> pulado_por_valor it) [item_exemplo, item_sem_valor, item_outro] =
     [item_exemplo, item_outro]"
    by (simp add: pulado_por_valor_def le_periodo_def amostra_defs)
  from C2_exactly_one_ledger [OF run] run f show ?thesis by blast
qed

text \<open>
  C1, as the code has it. An item with an invalid amount is left out of both lists when
  the amount check is reached: its month and year convert to integers and its two
  identifier texts are not empty. The loop body then changes nothing, and over a whole run
  a label whose items are all skipped this way is in neither list. (The checks of the
  period and of the identifier come first in the loop, and each of them records a failed
  entry.)
\<close>

theorem C1_skip_invalid_amount:
  assumes "valor_total_invalido (item_valor_normal it)"
    and "le_periodo it = Periodo mes ano"
    and "item_ie it \<noteq> []" and "item_ie_digitos it \<noteq> []"
  shows "processa_item r i it st = Inr st \<and>
         (\<forall>w its suc err.
            executar_fluxo_por_ie w its = Inr (suc, err) \<and>
            (\<forall>x \<in> set its. rotulo (item_ie x) = item_ie it \<longrightarrow> pulado_por_valor x) \<longrightarrow>
            item_ie it \<notin> set suc \<and> item_ie it \<notin> fst ` set err)"
proof -
  from assms have p: "pulado_por_valor it"
    by (simp add: pulado_por_valor_def)
  then have a: "processa_item r i it st = Inr st"
    by (rule processa_item_pulado)
  have b: "item_ie it \<notin> set suc \<and> item_ie it \<notin> fst ` set err"
    if run: "executar_fluxo_por_ie w its = Inr (suc, err)"
    and all: "\<forall>x \<in> set its. rotulo (item_ie x) = item_ie it \<longrightarrow> pulado_por_valor x"
    for w its suc err
  proof -
    let ?ls = "map (\<lambda>it. rotulo (item_ie it)) (filter (\<lambda>it. \<not> pulado_por_valor it) its)"
    from run have eq: "mset suc + mset (map fst err) = mset ?ls"
      by (rule executar_contagem)
    from all have "item_ie it \<notin> set ?ls" by auto
    then have "item_ie it \<notin># mset suc + mset (map fst err)"
      using eq by simp
    then show ?thesis by simp
  qed
  from a b show ?thesis by blast
qed

theorem C1_skip_invalid_amount_witness:
  "valor_total_invalido (item_valor_normal item_sem_valor) \<and>
   le_periodo item_sem_valor = Periodo 12 2025 \<and>
   item_ie item_sem_valor \<noteq> [] \<and> item_ie_digitos item_sem_valor \<noteq> [] \<and>
   processa_item (respostas_calmas ''AB12CD34'') 1 item_sem_valor estado_inicial = Inr estado_inicial \<and>
   executar_fluxo_por_ie mundo_calmo [item_outro, item_sem_valor] = Inr ([''07.000.111-2''], []) \<and>
   item_ie item_sem_valor \<notin> set [''07.000.111-2''] \<and>
   item_ie item_sem_valor \<notin> fst ` set ([] :: (string \<times> string) list)"
proof -
  have h1: "valor_total_invalido (item_valor_normal item_sem_valor)"
    by (simp add: amostra_defs)
  have h2: "le_periodo item_sem_valor = Periodo 12 2025"
    by (simp add: amostra_defs le_periodo_def)
  have h3: "item_ie item_sem_valor \<noteq> []" and h4: "item_ie_digitos item_sem_valor \<noteq> []"
    by (simp_all add: amostra_defs)
  have run: "executar_fluxo_por_ie mundo_calmo [item_outro, item_sem_valor] =
      Inr ([''07.000.111-2''], [])"
    by (simp add: modelo_defs texto_defs amostra_defs Let_def)
  note inst = C1_skip_invalid_amount [OF h1 h2 h3 h4,
      of "respostas_calmas ''AB12CD34''" 1 estado_inicial]
  from inst have step:
    "processa_item (respostas_calmas ''AB12CD34'') 1 item_sem_valor estado_inicial = Inr estado_inicial"
    by blast
  have "item_ie item_sem_valor \<notin> set [''07.000.111-2''] \<and>
        item_ie item_sem_valor \<notin> fst ` set ([] :: (string \<times> string) list)"
    by (simp add: amostra_defs)
  with h1 h2 h3 h4 step run show ?thesis by blast
qed

text \<open>
  The claim as written fails for an item without amount and without identifier: the
  identifier check comes first and records a failed entry.
\<close>

theorem C1_counterexample:
  "valor_total_invalido (item_valor_normal item_sem_valor_sem_ie) \<and>
   executar_fluxo_por_ie mundo_calmo [item_sem_valor_sem_ie] =
     Inr ([], [(''(vazio)'', MSG_IE_INVALIDA)])"
  by (simp add: item_sem_valor_sem_ie_def item_exemplo_def executar_fluxo_por_ie_def
        mundo_calmo_def mundo_de_def estado_inicial_def processa_item_def le_periodo_def
        registra_erro_def rotulo_def)


section \<open>A failing screenshot\<close>

lemma motivo_de_length: "length p \<le> 80 \<Longrightarrow> length (motivo_de t p) \<le> 80"
  by (simp add: motivo_de_def Let_def)

text \<open>
  C3, as the code has it. When step 2 or step 3 raises for an item that passed the checks
  and step 1, the screenshot is attempted. If the screenshot call returns, the first line
  of the original error, cut to 80 characters, is recorded as the item's failed entry and
  the loop goes on with the next item. If the screenshot call raises, its exception leaves
  the loop: nothing is recorded and no further item is processed.
\<close>

theorem C3_screenshot_then_ledger:
  assumes "le_periodo it = Periodo mes ano"
    and "item_ie it \<noteq> []" and "item_ie_digitos it \<noteq> []"
    and "\<not> valor_total_invalido (item_valor_normal it)"
    and "i = 0 \<or> r_recarga (rs i) = None"
    and "r_ie (rs i) = None" and "r_receita_visivel (rs i)"
  shows "(\<forall>m. r_receita_dae (rs i) = Some m \<longrightarrow>
            laco rs i (it # its) st =
              (case r_captura (rs i) of
                 None \<Rightarrow>
                   laco rs (Suc i) its
                     (registra_erro
                        (st\<lparr>escritas := escritas st @
                             [(SELETOR_CAMPO_IE, []), (SELETOR_CAMPO_IE, item_ie_digitos it)]\<rparr>)
                        (item_ie it) (motivo_de m MSG_FALHA_RECEITA))
               | Some c \<Rightarrow> Inl (Erro c)) \<and>
            length (motivo_de m MSG_FALHA_RECEITA) \<le> 80) \<and>
         (\<forall>m. r_receita_dae (rs i) = None \<and> r_form_visivel (rs i) = Some m \<longrightarrow>
            laco rs i (it # its) st =
              (case r_captura (rs i) of
                 None \<Rightarrow>
                   laco rs (Suc i) its
                     (registra_erro
                        (st\<lparr>escritas := escritas st @
                             [(SELETOR_CAMPO_IE, []), (SELETOR_CAMPO_IE, item_ie_digitos it)]\<rparr>)
                        (item_ie it) (motivo_de m MSG_FALHA_FORMULARIO))
               | Some c \<Rightarrow> Inl (Erro c)) \<and>
            length (motivo_de m MSG_FALHA_FORMULARIO) \<le> 80) \<and>
         (\<forall>e esc'. r_receita_dae (rs i) = None \<and> r_form_visivel (rs i) = None \<and>
            preencher_formulario_dae (r_formulario (rs i)) mes ano (item_valor_normal it)
              (escritas st @ [(SELETOR_CAMPO_IE, []), (SELETOR_CAMPO_IE, item_ie_digitos it)]) =
              (Some e, esc') \<longrightarrow>
            laco rs i (it # its) st =
              (case r_captura (rs i) of
                 None \<Rightarrow>
                   laco rs (Suc i) its
                     (registra_erro (st\<lparr>escritas := esc'\<rparr>) (item_ie it)
                        (motivo_de (str_exc e) MSG_FALHA_FORMULARIO))
               | Some c \<Rightarrow> Inl (Erro c)))"
proof -
  let ?esc1 = "escritas st @ [(SELETOR_CAMPO_IE, []), (SELETOR_CAMPO_IE, item_ie_digitos it)]"
  let ?st1 = "st\<lparr>escritas := ?esc1\<rparr>"
  have p1: "preencher_ie_e_avancar (rs i) (item_ie_digitos it) (escritas st) = (Inr True, ?esc1)"
    using assms(6,7) by (simp add: preencher_ie_e_avancar_def executa_def)
  have rec: "(if 0 < i then r_recarga (rs i) else None) = None"
    using assms(5) by auto
  have item: "processa_item (rs i) i it st =
      passo2 (rs i) (item_ie it) mes ano (item_valor_normal it) ?st1"
    using assms(1-4) rec p1 by (simp add: processa_item_def passo1_def)
  have a: "laco rs i (it # its) st =
      (case r_captura (rs i) of
         None \<Rightarrow> laco rs (Suc i) its
                   (registra_erro ?st1 (item_ie it) (motivo_de m MSG_FALHA_RECEITA))
       | Some c \<Rightarrow> Inl (Erro c))"
    if "r_receita_dae (rs i) = Some m" for m
    using that
    by (simp add: item passo2_def selecionar_receita_e_preencher_dae_def trata_excecao_def
          split: option.splits)
  have b: "laco rs i (it # its) st =
      (case r_captura (rs i) of
         None \<Rightarrow> laco rs (Suc i) its
                   (registra_erro ?st1 (item_ie it) (motivo_de m MSG_FALHA_FORMULARIO))
       | Some c \<Rightarrow> Inl (Erro c))"
    if "r_receita_dae (rs i) = None \<and> r_form_visivel (rs i) = Some m" for m
    using that
    by (simp add: item passo2_def passo3_def selecionar_receita_e_preencher_dae_def
          trata_excecao_def split: option.splits)
  have c: "laco rs i (it # its) st =
      (case r_captura (rs i) of
         None \<Rightarrow> laco rs (Suc i) its
                   (registra_erro (st\<lparr>escritas := esc'\<rparr>) (item_ie it)
                      (motivo_de (str_exc e) MSG_FALHA_FORMULARIO))
       | Some c \<Rightarrow> Inl (Erro c))"
    if "r_receita_dae (rs i) = None \<and> r_form_visivel (rs i) = None \<and>
        preencher_formulario_dae (r_formulario (rs i)) mes ano (item_valor_normal it) ?esc1 =
          (Some e, esc')" for e esc'
    using that
    by (simp add: item passo2_def passo3_def selecionar_receita_e_preencher_dae_def
          trata_excecao_def split: option.splits)
  have la: "length (motivo_de m MSG_FALHA_RECEITA) \<le> 80" for m
    by (rule motivo_de_length) (simp add: MSG_FALHA_RECEITA_def)
  have lb: "length (motivo_de m MSG_FALHA_FORMULARIO) \<le> 80" for m
    by (rule motivo_de_length) (simp add: MSG_FALHA_FORMULARIO_def)
  from a b c la lb show ?thesis by blast
qed

theorem C3_screenshot_then_ledger_witness:
  "le_periodo item_exemplo = Periodo 12 2025 \<and>
   r_receita_dae (w_itens mundo_receita_falha 0) = Some ''Timeout 30000ms exceeded.'' \<and>
   r_captura (w_itens mundo_receita_falha 0) = None \<and>
   laco (w_itens mundo_receita_falha) 0 [item_exemplo, item_outro] estado_inicial =
     laco (w_itens mundo_receita_falha) (Suc 0) [item_outro]
       (registra_erro
          (estado_inicial\<lparr>escritas := escritas estado_inicial @
             [(SELETOR_CAMPO_IE, []), (SELETOR_CAMPO_IE, item_ie_digitos item_exemplo)]\<rparr>)
          (item_ie item_exemplo) (motivo_de ''Timeout 30000ms exceeded.'' MSG_FALHA_RECEITA)) \<and>
   executar_fluxo_por_ie mundo_receita_falha [item_exemplo, item_outro] =
     Inr ([''07.000.111-2''], [(''06.123.456-7'', ''Timeout 30000ms exceeded.'')])"
proof -
  let ?rs = "w_itens mundo_receita_falha"
  have h1: "le_periodo item_exemplo = Periodo 12 2025"
    by (simp add: amostra_defs le_periodo_def)
  have h2: "item_ie item_exemplo \<noteq> []" and h3: "item_ie_digitos item_exemplo \<noteq> []"
    and h4: "\<not> valor_total_invalido (item_valor_normal item_exemplo)"
    by (simp_all add: amostra_defs)
  have h5: "(0::nat) = 0 \<or> r_recarga (?rs 0) = None" by simp
  have h6: "r_ie (?rs 0) = None" and h7: "r_receita_visivel (?rs 0)"
    and h8: "r_receita_dae (?rs 0) = Some ''Timeout 30000ms exceeded.''"
    and h9: "r_captura (?rs 0) = None"
    by (simp_all add: amostra_defs mundo_de_def respostas_calmas_def)
  have run: "executar_fluxo_por_ie mundo_receita_falha [item_exemplo, item_outro] =
     Inr ([''07.000.111-2''], [(''06.123.456-7'', ''Timeout 30000ms exceeded.'')])"
    by (simp add: modelo_defs texto_defs amostra_defs Let_def)
  from C3_screenshot_then_ledger
         [where rs = "?rs" and i = 0 and it = item_exemplo and its = "[item_outro]"
            and st = estado_inicial, OF h1 h2 h3 h4 h5 h6 h7]
  have "laco ?rs 0 [item_exemplo, item_outro] estado_inicial =
     (case r_captura (?rs 0) of
        None \<Rightarrow>
          laco ?rs (Suc 0) [item_outro]
            (registra_erro
               (estado_inicial\<lparr>escritas := escritas estado_inicial @
                  [(SELETOR_CAMPO_IE, []), (SELETOR_CAMPO_IE, item_ie_digitos item_exemplo)]\<rparr>)
               (item_ie item_exemplo) (motivo_de ''Timeout 30000ms exceeded.'' MSG_FALHA_RECEITA))
      | Some c \<Rightarrow> Inl (Erro c))"
    using h8 by blast
  then have "laco ?rs 0 [item_exemplo, item_outro] estado_inicial =
     laco ?rs (Suc 0) [item_outro]
       (registra_erro
          (estado_inicial\<lparr>escritas := escritas estado_inicial @
             [(SELETOR_CAMPO_IE, []), (SELETOR_CAMPO_IE, item_ie_digitos item_exemplo)]\<rparr>)
          (item_ie item_exemplo) (motivo_de ''Timeout 30000ms exceeded.'' MSG_FALHA_RECEITA))"
    by (simp add: h9)
  with h1 h8 h9 run show ?thesis by blast
qed

text \<open>
  The claim as written fails when the screenshot call raises: the run ends with the
  exception of the screenshot, without a result.
\<close>

theorem C3_counterexample:
  "executar_fluxo_por_ie mundo_captura_falha [item_exemplo, item_outro] =
     Inl (Erro ''Target closed'')"
  by (simp add: modelo_defs texto_defs amostra_defs Let_def)

section \<open>The captcha step\<close>

text \<open>
  C7. In the captcha step: when the image does not show, the step returns \<open>True\<close>
  without writing anything and the item is recorded as succeeded; when the image shows
  and the resolver returns nothing, an empty text or raises, the step returns \<open>False\<close>
  and the item is recorded as failed; when the resolver returns a text that is not empty,
  the captcha field receives the empty text and then the first 6 characters of that text,
  and nothing else is written.
\<close>

theorem C7_captcha_outcomes:
  "(\<not> r_captcha_visivel r \<longrightarrow>
      resolver_e_preencher_captcha r esc = (True, esc) \<and>
      passo4 r l st = Inr (registra_sucesso st l)) \<and>
   (r_captcha_visivel r \<and>
    (resolver_imagem (r_servico r) = Inr None \<or> resolver_imagem (r_servico r) = Inr (Some []) \<or>
     (\<exists>m. resolver_imagem (r_servico r) = Inl m)) \<longrightarrow>
      resolver_e_preencher_captcha r esc = (False, esc) \<and>
      passo4 r l st = Inr (registra_erro st l MSG_FALHA_CAPTCHA)) \<and>
   (r_captcha_visivel r \<and> r_captcha_imagem r = None \<and>
    resolver_imagem (r_servico r) = Inr (Some texto) \<and> texto \<noteq> [] \<longrightarrow>
      (\<exists>k \<le> 2. snd (resolver_e_preencher_captcha r esc) =
          esc @ take k [(SELETOR_INPUT_CAPTCHA, []), (SELETOR_INPUT_CAPTCHA, take 6 texto)]) \<and>
      (r_captcha_fill r = None \<longrightarrow>
         resolver_e_preencher_captcha r esc =
           (True, esc @ [(SELETOR_INPUT_CAPTCHA, []), (SELETOR_INPUT_CAPTCHA, take 6 texto)])) \<and>
      length (take 6 texto) \<le> 6)"
proof -
  have a: "resolver_e_preencher_captcha r esc = (True, esc) \<and>
           passo4 r l st = Inr (registra_sucesso st l)"
    if "\<not> r_captcha_visivel r" for esc
    using that by (simp add: resolver_e_preencher_captcha_def passo4_def)
  have b1: "resolver_e_preencher_captcha r esc = (False, esc)"
    if "r_captcha_visivel r" and
       "resolver_imagem (r_servico r) = Inr None \<or> resolver_imagem (r_servico r) = Inr (Some []) \<or>
        (\<exists>m. resolver_imagem (r_servico r) = Inl m)" for esc
    using that by (auto simp: resolver_e_preencher_captcha_def)
  have b: "resolver_e_preencher_captcha r esc = (False, esc) \<and>
           passo4 r l st = Inr (registra_erro st l MSG_FALHA_CAPTCHA)"
    if "r_captcha_visivel r" and
       "resolver_imagem (r_servico r) = Inr None \<or> resolver_imagem (r_servico r) = Inr (Some []) \<or>
        (\<exists>m. resolver_imagem (r_servico r) = Inl m)"
    using b1 [OF that, of esc] b1 [OF that, of "escritas st"] by (simp add: passo4_def)
  have c: "(\<exists>k \<le> 2. snd (resolver_e_preencher_captcha r esc) =
          esc @ take k [(SELETOR_INPUT_CAPTCHA, []), (SELETOR_INPUT_CAPTCHA, take 6 texto)]) \<and>
      (r_captcha_fill r = None \<longrightarrow>
         resolver_e_preencher_captcha r esc =
           (True, esc @ [(SELETOR_INPUT_CAPTCHA, []), (SELETOR_INPUT_CAPTCHA, take 6 texto)])) \<and>
      length (take 6 texto) \<le> 6"
    if v: "r_captcha_visivel r" and im: "r_captcha_imagem r = None"
      and t: "resolver_imagem (r_servico r) = Inr (Some texto)" and ne: "texto \<noteq> []"
  proof -
    let ?cs = "[Fill SELETOR_INPUT_CAPTCHA [], Fill SELETOR_INPUT_CAPTCHA (take 6 texto)]"
    let ?ws = "[(SELETOR_INPUT_CAPTCHA, []), (SELETOR_INPUT_CAPTCHA, take 6 texto)]"
    have r: "resolver_e_preencher_captcha r esc =
        (case executa (r_captcha_fill r) ?cs esc of
           (None, esc') \<Rightarrow> (True, esc') | (Some e, esc') \<Rightarrow> (False, esc'))"
      using v im t ne by (simp add: resolver_e_preencher_captcha_def)
    have ex: "\<exists>k \<le> 2. snd (executa f ?cs esc) = esc @ take k ?ws" for f
    proof (cases f)
      case None
      then have "snd (executa f ?cs esc) = esc @ take 2 ?ws" by (simp add: executa_def)
      then show ?thesis by blast
    next
      case (Some km)
      obtain k m where km: "km = (k, m)" by (cases km)
      show ?thesis
      proof (cases "k < 2")
        case True
        then have "k = 0 \<or> k = 1" by auto
        then have "snd (executa f ?cs esc) = esc @ take k ?ws"
          using Some km by (auto simp: executa_def)
        with True show ?thesis by (intro exI [of _ k]) simp
      next
        case False
        then have "snd (executa f ?cs esc) = esc @ take 2 ?ws"
          using Some km by (simp add: executa_def)
        then show ?thesis by blast
      qed
    qed
    have s: "snd (resolver_e_preencher_captcha r esc) = snd (executa (r_captcha_fill r) ?cs esc)"
      by (simp add: r split: prod.splits option.splits)
    have full: "r_captcha_fill r = None \<longrightarrow>
        resolver_e_preencher_captcha r esc = (True, esc @ ?ws)"
      by (simp add: r executa_def)
    from ex [of "r_captcha_fill r"] s full show ?thesis by simp
  qed
  from a b c show ?thesis by blast
qed

theorem C7_captcha_outcomes_witness:
  "\<not> r_captcha_visivel respostas_sem_captcha \<and>
   passo4 respostas_sem_captcha ''06.123.456-7'' estado_inicial =
     Inr (registra_sucesso estado_inicial ''06.123.456-7'') \<and>
   r_captcha_visivel respostas_captcha_em_branco \<and>
   resolver_imagem (r_servico respostas_captcha_em_branco) = Inr None \<and>
   passo4 respostas_captcha_em_branco ''06.123.456-7'' estado_inicial =
     Inr (registra_erro estado_inicial ''06.123.456-7'' MSG_FALHA_CAPTCHA) \<and>
   resolver_imagem (r_servico (respostas_calmas ''AB12CD34'')) = Inr (Some ''AB12CD34'') \<and>
   resolver_e_preencher_captcha (respostas_calmas ''AB12CD34'') [] =
     (True, [(SELETOR_INPUT_CAPTCHA, []), (SELETOR_INPUT_CAPTCHA, ''AB12CD'')])"
proof -
  have a: "\<not> r_captcha_visivel respostas_sem_captcha"
    by (simp add: respostas_sem_captcha_def respostas_calmas_def)
  have b1: "r_captcha_visivel respostas_captcha_em_branco"
    by (simp add: respostas_captcha_em_branco_def respostas_calmas_def)
  have b2: "resolver_imagem (r_servico respostas_captcha_em_branco) = Inr None"
    by (simp add: respostas_captcha_em_branco_def respostas_calmas_def resolver_imagem_def
          py_strip_def py_isspace_def)
  have c1: "r_captcha_visivel (respostas_calmas ''AB12CD34'')"
    and c2: "r_captcha_imagem (respostas_calmas ''AB12CD34'') = None"
    and c4: "r_captcha_fill (respostas_calmas ''AB12CD34'') = None"
    by (simp_all add: respostas_calmas_def)
  have c3: "resolver_imagem (r_servico (respostas_calmas ''AB12CD34'')) = Inr (Some ''AB12CD34'')"
    by (simp add: respostas_calmas_def resolver_imagem_def py_strip_def py_isspace_def)
  have ra: "passo4 respostas_sem_captcha ''06.123.456-7'' estado_inicial =
      Inr (registra_sucesso estado_inicial ''06.123.456-7'')"
    using C7_captcha_outcomes [of respostas_sem_captcha "[]" "''06.123.456-7''" estado_inicial]
      a by blast
  have rb: "passo4 respostas_captcha_em_branco ''06.123.456-7'' estado_inicial =
      Inr (registra_erro estado_inicial ''06.123.456-7'' MSG_FALHA_CAPTCHA)"
    using C7_captcha_outcomes [of respostas_captcha_em_branco "[]" "''06.123.456-7''"
        estado_inicial] b1 b2 by blast
  have "resolver_e_preencher_captcha (respostas_calmas ''AB12CD34'') [] =
      (True, [] @ [(SELETOR_INPUT_CAPTCHA, []), (SELETOR_INPUT_CAPTCHA, take 6 ''AB12CD34'')])"
    using C7_captcha_outcomes [of "respostas_calmas ''AB12CD34''" "[]" _ _ "''AB12CD34''"]
      c1 c2 c3 c4 by blast
  then have rc: "resolver_e_preencher_captcha (respostas_calmas ''AB12CD34'') [] =
      (True, [(SELETOR_INPUT_CAPTCHA, []), (SELETOR_INPUT_CAPTCHA, ''AB12CD'')])"
    by simp
  from a b1 b2 c3 ra rb rc show ?thesis by blast
qed

section \<open>The payment date\<close>

text \<open>
  C4. Whenever \<open>_preencher_formulario_dae\<close> ends without an exception, the first five
  fields it wrote are the reference month and year and the payment date: day \<open>20\<close>,
  month \<open>mes + 1\<close> of the same year, or month 1 of the next year when \<open>mes\<close> is 12; the
  months are written with two digits.
\<close>

theorem C4_payment_date:
  assumes "preencher_formulario_dae f mes ano valor esc = (None, esc')"
  shows "take 5 (drop (length esc) esc') =
           [(SELETOR_MES_REFERENCIA, fmt_02d mes), (SELETOR_ANO_REFERENCIA, py_str_int ano),
            (SELETOR_DIA_PAGAMENTO, ''20''),
            (SELETOR_MES_PAGAMENTO, fmt_02d (if mes = 12 then 1 else mes + 1)),
            (SELETOR_ANO_PAGAMENTO, py_str_int (if mes = 12 then ano + 1 else ano))]"
proof -
  let ?cs = "[Fill SELETOR_MES_REFERENCIA (fmt_02d mes),
              Fill SELETOR_ANO_REFERENCIA (py_str_int ano),
              Fill SELETOR_DIA_PAGAMENTO ''20'',
              Fill SELETOR_MES_PAGAMENTO (fmt_02d (if mes = 12 then 1 else mes + 1)),
              Fill SELETOR_ANO_PAGAMENTO (py_str_int (if mes = 12 then ano + 1 else ano))]"
  have unfold: "preencher_formulario_dae f mes ano valor esc =
      (case executa f ?cs esc of
         (Some e, esc1) \<Rightarrow> (Some e, esc1)
       | (None, esc1) \<Rightarrow>
           (if valor = PNone then (None, esc1)
            else (case fmt_2f valor of
                    Inl e \<Rightarrow> (Some e, esc1)
                  | Inr txt \<Rightarrow>
                      executa (apos 5 f)
                        [Fill SELETOR_VALOR_PRINCIPAL (py_replace (CHR '','') (CHR ''.'') txt)]
                        esc1)))"
    by (simp add: preencher_formulario_dae_def Let_def)
  from assms unfold obtain esc1 where
    first: "executa f ?cs esc = (None, esc1)" and
    rest: "esc' = esc1 \<or>
           (\<exists>g txt. executa g [Fill SELETOR_VALOR_PRINCIPAL txt] esc1 = (None, esc'))"
    by (auto split: prod.splits option.splits if_splits sum.splits)
  from first have esc1: "esc1 = esc @ escritas_de ?cs"
    by (auto simp: executa_def split: option.splits prod.splits if_splits)
  from rest have "\<exists>zs. esc' = esc1 @ zs"
    by (auto simp: executa_def split: option.splits prod.splits if_splits)
  then obtain zs where "esc' = esc @ escritas_de ?cs @ zs"
    using esc1 by auto
  then show ?thesis by simp
qed

theorem C4_payment_date_witness:
  "preencher_formulario_dae None 1 2026 (PFloat (Finito 1000)) [] =
     (None, [(SELETOR_MES_REFERENCIA, ''01''), (SELETOR_ANO_REFERENCIA, ''2026''),
             (SELETOR_DIA_PAGAMENTO, ''20''), (SELETOR_MES_PAGAMENTO, ''02''),
             (SELETOR_ANO_PAGAMENTO, ''2026''), (SELETOR_VALOR_PRINCIPAL, ''1000.00'')]) \<and>
   preencher_formulario_dae None 12 2025 PNone [] =
     (None, [(SELETOR_MES_REFERENCIA, ''12''), (SELETOR_ANO_REFERENCIA, ''2025''),
             (SELETOR_DIA_PAGAMENTO, ''20''), (SELETOR_MES_PAGAMENTO, ''01''),
             (SELETOR_ANO_PAGAMENTO, ''2026'')]) \<and>
   fmt_02d (if (1::int) = 12 then 1 else 1 + 1) = ''02'' \<and>
   py_str_int (if (1::int) = 12 then 2026 + 1 else 2026) = ''2026'' \<and>
   fmt_02d (if (12::int) = 12 then 1 else 12 + 1) = ''01'' \<and>
   py_str_int (if (12::int) = 12 then 2025 + 1 else 2025) = ''2026''"
proof -
  have r1: "preencher_formulario_dae None 1 2026 (PFloat (Finito 1000)) [] =
     (None, [(SELETOR_MES_REFERENCIA, ''01''), (SELETOR_ANO_REFERENCIA, ''2026''),
             (SELETOR_DIA_PAGAMENTO, ''20''), (SELETOR_MES_PAGAMENTO, ''02''),
             (SELETOR_ANO_PAGAMENTO, ''2026''), (SELETOR_VALOR_PRINCIPAL, ''1000.00'')])"
    by (simp add: modelo_defs texto_defs Let_def)
  have r2: "preencher_formulario_dae None 12 2025 PNone [] =
     (None, [(SELETOR_MES_REFERENCIA, ''12''), (SELETOR_ANO_REFERENCIA, ''2025''),
             (SELETOR_DIA_PAGAMENTO, ''20''), (SELETOR_MES_PAGAMENTO, ''01''),
             (SELETOR_ANO_PAGAMENTO, ''2026'')])"
    by (simp add: modelo_defs texto_defs Let_def)
  from C4_payment_date [OF r1] have
    "fmt_02d (if (1::int) = 12 then 1 else 1 + 1) = ''02'' \<and>
     py_str_int (if (1::int) = 12 then 2026 + 1 else 2026) = ''2026''"
    by simp
  moreover from C4_payment_date [OF r2] have
    "fmt_02d (if (12::int) = 12 then 1 else 12 + 1) = ''01'' \<and>
     py_str_int (if (12::int) = 12 then 2025 + 1 else 2025) = ''2026''"
    by simp
  ultimately show ?thesis using r1 r2 by blast
qed

section \<open>A sheet without TOTAL column\<close>

lemma normalizar_TOTAL: "normalizar_cabecalho (Some ''TOTAL'') = ''total''"
  by code_simp

lemma obter_chave_total_None:
  assumes "\<forall>k \<in> set (map fst nome_para_indice). normalizar_cabecalho (Some k) \<noteq> ''total''"
  shows "obter_chave_total nome_para_indice = None"
  using assms by (simp add: obter_chave_total_def normalizar_TOTAL find_None_iff)

lemma ie_apenas_digitos_nonempty: "s \<noteq> [] \<Longrightarrow> ie_apenas_digitos s \<noteq> []"
proof -
  assume "s \<noteq> []"
  then have "ie_apenas_digitos s =
      (if length (filter py_isdigit s) \<le> 9
       then replicate (9 - length (filter py_isdigit s)) (CHR ''0'') @ filter py_isdigit s
       else take 9 (filter py_isdigit s))"
    by (rule ie_apenas_digitos_shape)
  then have "length (ie_apenas_digitos s) = 9" by simp
  then show ?thesis by auto
qed

lemma itens_sem_total:
  "itens_das_linhas ie_key None m a linhas = Inr itens \<Longrightarrow>
   \<forall>it \<in> set itens. item_valor_normal it = PNone \<and> pulado_por_valor it"
proof (induction linhas arbitrary: itens)
  case Nil
  then show ?case by simp
next
  case (Cons row rows)
  show ?case
  proof (cases "ie_da_celula (row_get row ie_key)")
    case (Inl e)
    with Cons.prems show ?thesis by simp
  next
    case (Inr ie_opt)
    show ?thesis
    proof (cases "ie_opt = None \<or> ie_opt = Some []")
      case True
      with Inr Cons.prems have "itens_das_linhas ie_key None m a rows = Inr itens"
        by auto
      then show ?thesis by (rule Cons.IH)
    next
      case False
      then obtain ie_str where s: "ie_opt = Some ie_str" "ie_str \<noteq> []"
        by (cases ie_opt) auto
      with Inr Cons.prems obtain resto where
        r: "itens_das_linhas ie_key None m a rows = Inr resto" and
        i: "itens = \<lparr>item_ie = ie_str, item_ie_digitos = ie_apenas_digitos ie_str,
                     item_valor_normal = PNone,
                     item_mes_ref = PInt m, item_ano_ref = PInt a\<rparr> # resto"
        by (auto simp: valor_da_linha_def split: sum.splits)
      from r have ih: "\<forall>it \<in> set resto. item_valor_normal it = PNone \<and> pulado_por_valor it"
        by (rule Cons.IH)
      have "pulado_por_valor \<lparr>item_ie = ie_str, item_ie_digitos = ie_apenas_digitos ie_str,
                     item_valor_normal = PNone,
                     item_mes_ref = PInt m, item_ano_ref = PInt a\<rparr>"
        using s(2) by (simp add: pulado_por_valor_def le_periodo_def ie_apenas_digitos_nonempty)
      with ih i show ?thesis by simp
    qed
  qed
qed

lemma laco_pulados:
  "\<forall>it \<in> set its. pulado_por_valor it \<Longrightarrow> laco rs i its st = Inr st"
  by (induction its arbitrary: i) (simp_all add: processa_item_pulado)

text \<open>
  C10. When no key of the column mapping has the normalized name \<open>total\<close>, every work
  item the builder returns has the amount \<open>None\<close>. The orchestrator then skips every one
  of them: a run over those items returns two empty lists whenever the browser session
  opens and closes without an exception, and it never returns anything else.
\<close>

theorem C10_no_total_column:
  assumes "\<forall>k \<in> set (map fst nome_para_indice). normalizar_cabecalho (Some k) \<noteq> ''total''"
    and "obter_dados_para_dae linhas nome_para_indice mes_ref ano_ref = Inr itens"
  shows "(\<forall>it \<in> set itens. item_valor_normal it = PNone) \<and>
         (\<forall>w. w_iniciar w = None \<and> w_acesso w = None \<and> w_encerrar w = None \<longrightarrow>
               executar_fluxo_por_ie w itens = Inr ([], [])) \<and>
         (\<forall>w suc err. executar_fluxo_por_ie w itens = Inr (suc, err) \<longrightarrow> suc = [] \<and> err = [])"
proof -
  from assms(1) have t: "obter_chave_total nome_para_indice = None"
    by (rule obter_chave_total_None)
  from assms(2) t obtain ie_key m a where
    "itens_das_linhas ie_key None m a linhas = Inr itens"
    by (auto simp: obter_dados_para_dae_def split: option.splits)
  then have all: "\<forall>it \<in> set itens. item_valor_normal it = PNone \<and> pulado_por_valor it"
    by (rule itens_sem_total)
  then have sk: "\<forall>it \<in> set itens. pulado_por_valor it" by blast
  have l: "laco rs 0 itens estado_inicial = Inr estado_inicial" for rs
    using sk by (rule laco_pulados)
  have a: "executar_fluxo_por_ie w itens = Inr ([], [])"
    if "w_iniciar w = None \<and> w_acesso w = None \<and> w_encerrar w = None" for w
    using that by (simp add: executar_fluxo_por_ie_def l) (simp add: estado_inicial_def)
  have b: "suc = [] \<and> err = []" if "executar_fluxo_por_ie w itens = Inr (suc, err)"
    for w suc err
    using that
    by (auto simp: executar_fluxo_por_ie_def l Let_def split: option.splits)
       (simp_all add: estado_inicial_def)
  from all a b show ?thesis by blast
qed

theorem C10_no_total_column_witness:
  "list_all (\<lambda>k. normalizar_cabecalho (Some k) \<noteq> ''total'') (map fst mapa_sem_total) \<and>
   obter_dados_para_dae linhas_exemplo mapa_sem_total (Some 1) (Some 2026) =
     Inr [\<lparr>item_ie = ''06.123.456-7'', item_ie_digitos = ''061234567'',
           item_valor_normal = PNone, item_mes_ref = PInt 1, item_ano_ref = PInt 2026\<rparr>,
          \<lparr>item_ie = ''061234567'', item_ie_digitos = ''061234567'',
           item_valor_normal = PNone, item_mes_ref = PInt 1, item_ano_ref = PInt 2026\<rparr>] \<and>
   executar_fluxo_por_ie mundo_calmo
     [\<lparr>item_ie = ''06.123.456-7'', item_ie_digitos = ''061234567'',
       item_valor_normal = PNone, item_mes_ref = PInt 1, item_ano_ref = PInt 2026\<rparr>,
      \<lparr>item_ie = ''061234567'', item_ie_digitos = ''061234567'',
       item_valor_normal = PNone, item_mes_ref = PInt 1, item_ano_ref = PInt 2026\<rparr>] =
     Inr ([], [])"
proof -
  have h1: "\<forall>k \<in> set (map fst mapa_sem_total). normalizar_cabecalho (Some k) \<noteq> ''total''"
    by code_simp
  have k: "obter_chave_ie mapa_sem_total = Some ''INSC.ESTADUAL''"
    by code_simp
  have t: "obter_chave_total mapa_sem_total = None"
    by code_simp
  have d1: "ie_apenas_digitos ''06.123.456-7'' = ''061234567''"
    and d2: "ie_apenas_digitos ''061234567'' = ''061234567''"
    and d3: "ie_de_texto ''06.123.456-7'' = Some ''06.123.456-7''"
    by code_simp+
  have d4: "ie_de_texto (py_str_int 61234567) = Some ''061234567''"
    by (simp add: ie_de_texto_def py_str_int_def decimal_nat.simps py_strip_def
          py_isspace_def normalizar_ie_zeros_esquerda_def DIGITOS_IE_CE_def
          py_str_isdigit_def py_isdigit_def py_isdecimal_def py_zfill_def)
  have h2: "obter_dados_para_dae linhas_exemplo mapa_sem_total (Some 1) (Some 2026) =
     Inr [\<lparr>item_ie = ''06.123.456-7'', item_ie_digitos = ''061234567'',
           item_valor_normal = PNone, item_mes_ref = PInt 1, item_ano_ref = PInt 2026\<rparr>,
          \<lparr>item_ie = ''061234567'', item_ie_digitos = ''061234567'',
           item_valor_normal = PNone, item_mes_ref = PInt 1, item_ano_ref = PInt 2026\<rparr>]"
    by (simp add: obter_dados_para_dae_def k t linhas_exemplo_def row_get_def d1 d2 d3 d4
          valor_da_linha_def)
  have w: "w_iniciar mundo_calmo = None \<and> w_acesso mundo_calmo = None \<and>
           w_encerrar mundo_calmo = None"
    by (simp add: mundo_calmo_def mundo_de_def)
  from C10_no_total_column [OF h1 h2] w have
    "executar_fluxo_por_ie mundo_calmo
     [\<lparr>item_ie = ''06.123.456-7'', item_ie_digitos = ''061234567'',
       item_valor_normal = PNone, item_mes_ref = PInt 1, item_ano_ref = PInt 2026\<rparr>,
      \<lparr>item_ie = ''061234567'', item_ie_digitos = ''061234567'',
       item_valor_normal = PNone, item_mes_ref = PInt 1, item_ano_ref = PInt 2026\<rparr>] =
     Inr ([], [])"
    by blast
  moreover from h1 have
    "list_all (\<lambda>k. normalizar_cabecalho (Some k) \<noteq> ''total'') (map fst mapa_sem_total)"
    by (simp add: list_all_iff)
  ultimately show ?thesis using h2 by blast
qed

section \<open>The reference period\<close>

lemmas minusculas_defs = py_lower_def py_lower_char_def MAIUSCULAS_def MINUSCULAS_def


lemmas numero_defs =
  int_de_str_def strip_conv_def py_isspace_conv_def tira_sinal_def digitpart_def
  py_isdecimal_def nat_de_digitos_def valor_digito_def


lemma lower_1: "py_lower ''1/1/2026'' = ''1/1/2026''"
  by (simp add: minusculas_defs)

lemma lower_2: "py_lower ''jan-26'' = ''jan-26''" and lower_3: "py_lower ''jan/26'' = ''jan/26''"
  by (simp_all add: minusculas_defs)

lemma abrev_1: "periodo_mes_abreviado ''1/1/2026'' = None"
  by (simp add: periodo_mes_abreviado_def lower_1 casa_grupos_def MESES_ABREV_def)

lemma abrev_2: "periodo_mes_abreviado ''jan-26'' = Some (1, 2026)"
  by (simp add: periodo_mes_abreviado_def lower_2 casa_grupos_def MESES_ABREV_def
        py_isspace_def py_isdecimal_def nat_de_digitos_def valor_digito_def)

lemma abrev_3: "periodo_mes_abreviado ''jan/26'' = Some (1, 2026)"
  by (simp add: periodo_mes_abreviado_def lower_3 casa_grupos_def MESES_ABREV_def
        py_isspace_def py_isdecimal_def nat_de_digitos_def valor_digito_def)

lemma partes_1: "ints_das_partes [''1'', ''1'', ''2026''] = Inr [1, 1, 2026]"
  by (simp add: py_str_isdigit_def py_isdigit_def numero_defs)

lemma numerico_1: "periodo_numerico ''1/1/2026'' = Some (1, 2026)"
  by (simp add: periodo_numerico_def py_strip_def py_isspace_def partes_1 periodo_valido_def
        del: ints_das_partes.simps)

lemma celula_texto:
  "parsear_celula_periodo (PStr ''1/1/2026'') = Some (1, 2026)"
  "parsear_celula_periodo (PStr ''jan-26'') = Some (1, 2026)"
  "parsear_celula_periodo (PStr ''jan/26'') = Some (1, 2026)"
  by (simp_all add: py_strip_def py_isspace_def abrev_1 abrev_2 abrev_3 numerico_1)

lemma serial_data: "soma_dias (1899, 12, 30) 46096 = Some (2026, 3, 15)"
  by code_simp

lemma celula_serial:
  "parsear_celula_periodo (PInt 46096) = Some (3, 2026)"
  "parsear_celula_periodo (PFloat (Finito 46096)) = Some (3, 2026)"
  by (simp_all add: periodo_de_serial_def serial_data periodo_valido_def trunca_def)

lemma celula_data:
  "parsear_celula_periodo
     (PDatetime \<lparr>dt_year = 2026, dt_month = 3, dt_day = 15, dt_hour = 0, dt_minute = 0,
                 dt_second = 0, dt_microsecond = 0\<rparr>) = Some (3, 2026)"
  by (simp add: periodo_valido_def)

lemma primeiro_periodo_None:
  "(\<forall>v \<in> set cs. parsear_celula_periodo v = None) \<Longrightarrow> primeiro_periodo cs = None"
  by (induction cs) auto

lemma primeiro_periodo_Some:
  "primeiro_periodo cs = Some p \<Longrightarrow> \<exists>v \<in> set cs. parsear_celula_periodo v = Some p"
  by (induction cs) (auto split: if_splits option.splits)

lemma varre_linhas_None:
  "(\<forall>l \<in> set ls. \<forall>cs. l = Celulas cs \<longrightarrow>
      (\<forall>v \<in> set (take 30 cs). parsear_celula_periodo v = None)) \<Longrightarrow>
   varre_linhas ls = None"
  by (induction ls rule: varre_linhas.induct)
     (simp_all add: primeiro_periodo_None MAX_COLUNAS_BUSCA_PERIODO_def)

lemma varre_linhas_Some:
  "varre_linhas ls = Some p \<Longrightarrow>
   \<exists>cs. Celulas cs \<in> set ls \<and> (\<exists>v \<in> set (take 30 cs). parsear_celula_periodo v = Some p)"
proof (induction ls rule: varre_linhas.induct)
  case 1
  then show ?case by simp
next
  case (2 ls)
  then show ?case by auto
next
  case (3 cs ls)
  show ?case
  proof (cases "primeiro_periodo (take MAX_COLUNAS_BUSCA_PERIODO cs)")
    case None
    with 3 show ?thesis by auto
  next
    case (Some q)
    with "3.prems" have "q = p" by simp
    with Some have "\<exists>v \<in> set (take 30 cs). parsear_celula_periodo v = Some p"
      by (auto dest: primeiro_periodo_Some simp: MAX_COLUNAS_BUSCA_PERIODO_def)
    then show ?thesis by auto
  qed
qed

lemma sem_periodo_celulas:
  "list_all (\<lambda>v. parsear_celula_periodo v = None)
     [PStr ''Filial'', PNone, PInt 7, PStr ''INSC.ESTADUAL'', PStr ''TOTAL'']"
  by (simp add: py_strip_def py_isspace_def periodo_mes_abreviado_def minusculas_defs
        casa_grupos_def MESES_ABREV_def periodo_numerico_def py_str_isdigit_def
        py_isdigit_def py_isdecimal_def)

text \<open>
  C5. The period parser reads \<open>1/1/2026\<close>, \<open>jan-26\<close> and \<open>jan/26\<close> as (1, 2026), a
  datetime cell of 2026-03-15 as (3, 2026), and the serial number 46096, which is
  2026-03-15 counted in days from 1899-12-30, as (3, 2026), as an \<open>int\<close> and as a
  \<open>float\<close>. When no cell of the first 12 rows and first 30 columns parses to a period,
  the extraction of the period raises the \<open>ValueError\<close>; and whenever it returns a
  period, a cell of that region parses to it (there is no default).
\<close>

theorem C5_period_parsing:
  "parsear_celula_periodo (PStr ''1/1/2026'') = Some (1, 2026) \<and>
   parsear_celula_periodo (PStr ''jan-26'') = Some (1, 2026) \<and>
   parsear_celula_periodo (PStr ''jan/26'') = Some (1, 2026) \<and>
   parsear_celula_periodo
     (PDatetime \<lparr>dt_year = 2026, dt_month = 3, dt_day = 15, dt_hour = 0, dt_minute = 0,
                 dt_second = 0, dt_microsecond = 0\<rparr>) = Some (3, 2026) \<and>
   soma_dias (1899, 12, 30) 46096 = Some (2026, 3, 15) \<and>
   parsear_celula_periodo (PInt 46096) = Some (3, 2026) \<and>
   parsear_celula_periodo (PFloat (Finito 46096)) = Some (3, 2026) \<and>
   ((\<forall>l \<in> set (take 12 planilha). \<forall>cs. l = Celulas cs \<longrightarrow>
       (\<forall>v \<in> set (take 30 cs). parsear_celula_periodo v = None)) \<longrightarrow>
    extrair_periodo_da_area_titulo planilha = Inl (ValueError MSG_PERIODO_NAO_ENCONTRADO)) \<and>
   (\<forall>p. extrair_periodo_da_area_titulo planilha = Inr p \<longrightarrow>
      (\<exists>cs. Celulas cs \<in> set (take 12 planilha) \<and>
            (\<exists>v \<in> set (take 30 cs). parsear_celula_periodo v = Some p)))"
proof -
  have none: "extrair_periodo_da_area_titulo planilha = Inl (ValueError MSG_PERIODO_NAO_ENCONTRADO)"
    if "\<forall>l \<in> set (take 12 planilha). \<forall>cs. l = Celulas cs \<longrightarrow>
          (\<forall>v \<in> set (take 30 cs). parsear_celula_periodo v = None)"
  proof -
    from that have "varre_linhas (take 12 planilha) = None"
      by (rule varre_linhas_None)
    then show ?thesis
      by (simp add: extrair_periodo_da_area_titulo_def MAX_LINHAS_BUSCA_PERIODO_def)
  qed
  have some: "\<exists>cs. Celulas cs \<in> set (take 12 planilha) \<and>
            (\<exists>v \<in> set (take 30 cs). parsear_celula_periodo v = Some p)"
    if "extrair_periodo_da_area_titulo planilha = Inr p" for p
  proof -
    from that have "varre_linhas (take 12 planilha) = Some p"
      by (simp add: extrair_periodo_da_area_titulo_def MAX_LINHAS_BUSCA_PERIODO_def
            split: option.splits)
    then show ?thesis by (rule varre_linhas_Some)
  qed
  from celula_texto celula_data serial_data celula_serial none some show ?thesis
    by blast
qed

theorem C5_period_parsing_witness:
  "list_all (\<lambda>v. parsear_celula_periodo v = None)
     [PStr ''Filial'', PNone, PInt 7, PStr ''INSC.ESTADUAL'', PStr ''TOTAL''] \<and>
   extrair_periodo_da_area_titulo planilha_sem_periodo =
     Inl (ValueError MSG_PERIODO_NAO_ENCONTRADO)"
proof -
  have c: "list_all (\<lambda>v. parsear_celula_periodo v = None)
     [PStr ''Filial'', PNone, PInt 7, PStr ''INSC.ESTADUAL'', PStr ''TOTAL'']"
    by (rule sem_periodo_celulas)
  have h: "\<forall>l \<in> set (take 12 planilha_sem_periodo). \<forall>cs. l = Celulas cs \<longrightarrow>
       (\<forall>v \<in> set (take 30 cs). parsear_celula_periodo v = None)"
    using c by (simp add: planilha_sem_periodo_def)
  from C5_period_parsing [of planilha_sem_periodo] h
  have "extrair_periodo_da_area_titulo planilha_sem_periodo =
     Inl (ValueError MSG_PERIODO_NAO_ENCONTRADO)"
    by blast
  with c show ?thesis by blast
qed

section \<open>Amounts: from the cell to the form\<close>

lemma floor_rat_numeral_div: "\<lfloor>numeral a / numeral b :: rat\<rfloor> = numeral a div numeral b"
  by (metis floor_divide_of_int_eq of_int_numeral)

lemma abaixo_do_limite: "(x::rat) < 2048 \<Longrightarrow> x < pot2 1024"
proof -
  assume a: "x < 2048"
  have "(2::rat) ^ 11 \<le> 2 ^ 1024" by (rule power_increasing) simp_all
  then have "(2048::rat) \<le> pot2 1024" by (simp add: pot2_def)
  with a show ?thesis by simp
qed

lemma expoente_1277_39: "expoente2 (127739 / 100) = 10"
  and expoente_1277_395: "expoente2 (255479 / 200) = 10"
  by (simp_all add: expoente2_def) code_simp+

lemma arredonda_1277_39: "arredonda_par (127739 / 100 / pot2 (- 42)) = 5618020632819139"
  by (simp add: pot2_def arredonda_par_def Let_def floor_rat_numeral_div)

lemma arredonda_1277_395: "arredonda_par (255479 / 200 / pot2 (- 42)) = 5618042623051694"
  by (simp add: pot2_def arredonda_par_def Let_def floor_rat_numeral_div)

lemma binary64_pos_1277_39: "binary64_pos (127739 / 100) = 5618020632819139 / 4398046511104"
proof -
  have "binary64_pos (127739 / 100) =
      of_int (arredonda_par (127739 / 100 / pot2 (- 42))) * pot2 (- 42)"
    unfolding binary64_pos_def expoente_1277_39 Let_def by simp
  also have "\<dots> = 5618020632819139 / 4398046511104"
    by (simp only: arredonda_1277_39) (simp add: pot2_def)
  finally show ?thesis .
qed

lemma binary64_pos_1277_395: "binary64_pos (255479 / 200) = 2809021311525847 / 2199023255552"
proof -
  have "binary64_pos (255479 / 200) =
      of_int (arredonda_par (255479 / 200 / pot2 (- 42))) * pot2 (- 42)"
    unfolding binary64_pos_def expoente_1277_395 Let_def by simp
  also have "\<dots> = 2809021311525847 / 2199023255552"
    by (simp only: arredonda_1277_395) (simp add: pot2_def)
  finally show ?thesis .
qed

lemma binary64_1277_39: "binary64 (127739 / 100) = Finito (5618020632819139 / 4398046511104)"
proof -
  have "(5618020632819139 / 4398046511104 :: rat) < 2048" by simp
  then have "(5618020632819139 / 4398046511104 :: rat) < pot2 1024" by (rule abaixo_do_limite)
  then show ?thesis
    unfolding binary64_def binary64_pos_1277_39 by simp
qed

lemma binary64_1277_395: "binary64 (255479 / 200) = Finito (2809021311525847 / 2199023255552)"
proof -
  have "(2809021311525847 / 2199023255552 :: rat) < 2048" by simp
  then have "(2809021311525847 / 2199023255552 :: rat) < pot2 1024" by (rule abaixo_do_limite)
  then show ?thesis
    unfolding binary64_def binary64_pos_1277_395 by simp
qed

lemma numero_1277_39: "numero_decimal ''1277.39'' = Some (127739 / 100)"
  by (simp add: numero_decimal_def eh_e_def mantissa_decimal_def digitpart_def py_isdecimal_def
        nat_de_digitos_def valor_digito_def pot10_def Let_def)

lemma float_1277_39: "float_de_str ''1277.39'' = Inr (binary64 (127739 / 100))"
  by (simp add: float_de_str_def strip_conv_def py_isspace_conv_def tira_sinal_def
        minusculas_defs numero_1277_39 Let_def)

lemma fmt_1277_395: "fmt_2f_float (Finito (2809021311525847 / 2199023255552)) = ''1277.39''"
  by (simp add: fmt_2f_float_def arredonda_par_def fmt_0d_def decimal_nat.simps Let_def
        floor_rat_numeral_div)

lemma valor_virgula: "valor_de_texto ''1277,39'' = PFloat (binary64 (127739 / 100))"
  by (simp add: valor_de_texto_def py_strip_def py_isspace_def py_replace_def float_1277_39)

lemma valor_ponto: "valor_de_texto ''1277.39'' = PFloat (binary64 (127739 / 100))"
  by (simp add: valor_de_texto_def py_strip_def py_isspace_def py_replace_def float_1277_39)


lemma itens_virgula:
  "obter_dados_para_dae linhas_virgula mapa_com_total (Some 1) (Some 2026) =
     Inr [\<lparr>item_ie = ''06.123.456-7'', item_ie_digitos = ''061234567'',
           item_valor_normal = PFloat (binary64 (127739 / 100)),
           item_mes_ref = PInt 1, item_ano_ref = PInt 2026\<rparr>]"
proof -
  have k: "obter_chave_ie mapa_com_total = Some ''INSC.ESTADUAL''"
    by code_simp
  have t: "obter_chave_total mapa_com_total = Some ''TOTAL''"
    by code_simp
  have d1: "ie_apenas_digitos ''06.123.456-7'' = ''061234567''"
    and d3: "ie_de_texto ''06.123.456-7'' = Some ''06.123.456-7''"
    by code_simp+
  show ?thesis
    by (simp add: obter_dados_para_dae_def k t linhas_virgula_def row_get_def d1 d3
          valor_da_linha_def valor_virgula)
qed

text \<open>
  C8. A TOTAL cell with the text \<open>1277,39\<close> gives the same amount as the text
  \<open>1277.39\<close> and as the number 1277.39, the float nearest to 127739/100; the builder
  passes it on to the work item. The float 1277.395 (the float nearest to 1277395/1000, a
  little below it) is formatted for the form as \<open>1277.39\<close>, and that text is what the
  form filler writes into the amount field.
\<close>

theorem C8_amount_roundtrip:
  "valor_da_celula (PStr ''1277,39'') = Inr (PFloat (binary64 (127739 / 100))) \<and>
   valor_da_celula (PStr ''1277.39'') = Inr (PFloat (binary64 (127739 / 100))) \<and>
   valor_da_celula (PFloat (binary64 (127739 / 100))) = Inr (PFloat (binary64 (127739 / 100))) \<and>
   binary64 (127739 / 100) = Finito (5618020632819139 / 4398046511104) \<and>
   obter_dados_para_dae linhas_virgula mapa_com_total (Some 1) (Some 2026) =
     Inr [\<lparr>item_ie = ''06.123.456-7'', item_ie_digitos = ''061234567'',
           item_valor_normal = PFloat (binary64 (127739 / 100)),
           item_mes_ref = PInt 1, item_ano_ref = PInt 2026\<rparr>] \<and>
   binary64 (1277395 / 1000) = Finito (2809021311525847 / 2199023255552) \<and>
   (2809021311525847 / 2199023255552 :: rat) < 1277395 / 1000 \<and>
   fmt_2f (PFloat (binary64 (1277395 / 1000))) = Inr ''1277.39'' \<and>
   preencher_formulario_dae None 1 2026 (PFloat (binary64 (1277395 / 1000))) [] =
     (None, [(SELETOR_MES_REFERENCIA, ''01''), (SELETOR_ANO_REFERENCIA, ''2026''),
             (SELETOR_DIA_PAGAMENTO, ''20''), (SELETOR_MES_PAGAMENTO, ''02''),
             (SELETOR_ANO_PAGAMENTO, ''2026''), (SELETOR_VALOR_PRINCIPAL, ''1277.39'')])"
proof -
  have a: "valor_da_celula (PStr ''1277,39'') = Inr (PFloat (binary64 (127739 / 100)))"
    by (simp add: valor_virgula)
  have b: "valor_da_celula (PStr ''1277.39'') = Inr (PFloat (binary64 (127739 / 100)))"
    by (simp add: valor_ponto)
  have c: "valor_da_celula (PFloat (binary64 (127739 / 100))) =
      Inr (PFloat (binary64 (127739 / 100)))"
    by simp
  have d: "binary64 (1277395 / 1000) = Finito (2809021311525847 / 2199023255552)"
    by (simp add: binary64_1277_395)
  have e: "(2809021311525847 / 2199023255552 :: rat) < 1277395 / 1000"
    by simp
  have f: "fmt_2f (PFloat (binary64 (1277395 / 1000))) = Inr ''1277.39''"
    by (simp only: d fmt_2f.simps fmt_1277_395)
  have g: "preencher_formulario_dae None 1 2026 (PFloat (binary64 (1277395 / 1000))) [] =
     (None, [(SELETOR_MES_REFERENCIA, ''01''), (SELETOR_ANO_REFERENCIA, ''2026''),
             (SELETOR_DIA_PAGAMENTO, ''20''), (SELETOR_MES_PAGAMENTO, ''02''),
             (SELETOR_ANO_PAGAMENTO, ''2026''), (SELETOR_VALOR_PRINCIPAL, ''1277.39'')])"
    unfolding d
    by (simp add: preencher_formulario_dae_def executa_def apos_def fmt_02d_def fmt_0d_def
          py_str_int_def decimal_nat.simps py_replace_def fmt_1277_395 Let_def)
  from a b c binary64_1277_39 itens_virgula d e f g show ?thesis by blast
qed

end
